theory Spec2Isabelle
  imports Main
begin

section \<open>The webhook relay: values of the runtime\<close>

text \<open>
  The handler of \<^verbatim>\<open>supabase/functions/github-webhook/index.ts\<close> works on whatever
  \<^verbatim>\<open>req.json()\<close> returns, so the model starts from JSON values. A property read that
  yields \<^verbatim>\<open>undefined\<close> is \<open>None\<close>. An object lists its members in the order
  \<^verbatim>\<open>JSON.parse\<close> gives them, each key once. Strings are lists of 8-bit characters. The
  handler only tests a number of the payload for truthiness and prints it, so a number is
  held as the text \<^verbatim>\<open>String(n)\<close> gives for it (\<^verbatim>\<open>42\<close>, \<^verbatim>\<open>1.5\<close>, \<^verbatim>\<open>1e+21\<close>); zero, of either
  sign, prints as \<^verbatim>\<open>0\<close>.
\<close>

datatype json =
    JNull
  | JBool bool
  | JNum string
  | JStr string
  | JArr "json list"
  | JObj "(string \<times> json) list"

type_synonym object = "(string \<times> json) list"

text \<open>JavaScript truthiness: \<^verbatim>\<open>null\<close>, \<^verbatim>\<open>false\<close>, \<^verbatim>\<open>0\<close> and \<^verbatim>\<open>""\<close> are falsy.\<close>

fun truthy :: "json \<Rightarrow> bool" where
  "truthy JNull = False"
| "truthy (JBool b) = b"
| "truthy (JNum n) = (n \<noteq> ''0'')"
| "truthy (JStr s) = (s \<noteq> [])"
| "truthy (JArr xs) = True"
| "truthy (JObj kvs) = True"

text \<open>\<^verbatim>\<open>!x\<close> for a value that may be \<^verbatim>\<open>undefined\<close>.\<close>

fun falsy :: "json option \<Rightarrow> bool" where
  "falsy None = True"
| "falsy (Some v) = (\<not> truthy v)"

text \<open>
  \<^verbatim>\<open>v.k\<close> on a value that is not \<^verbatim>\<open>null\<close>: an object gives its own property, every other
  value gives \<^verbatim>\<open>undefined\<close> (none of the names the handler reads from the payload is a
  member of a built-in prototype). Reading from \<^verbatim>\<open>null\<close> throws and is handled where it
  can happen.
\<close>

fun get_prop :: "json \<Rightarrow> string \<Rightarrow> json option" where
  "get_prop (JObj kvs) k = map_of kvs k"
| "get_prop v k = None"

text \<open>\<^verbatim>\<open>v?.k\<close>: \<^verbatim>\<open>undefined\<close> when \<open>v\<close> is \<^verbatim>\<open>undefined\<close> or \<^verbatim>\<open>null\<close>.\<close>

fun opt_get :: "json option \<Rightarrow> string \<Rightarrow> json option" where
  "opt_get None k = None"
| "opt_get (Some JNull) k = None"
| "opt_get (Some v) k = get_prop v k"

text \<open>\<^verbatim>\<open>x || d\<close> for a value that may be \<^verbatim>\<open>undefined\<close>.\<close>

fun or_else :: "json option \<Rightarrow> json \<Rightarrow> json" where
  "or_else None d = d"
| "or_else (Some v) d = (if truthy v then v else d)"

subsection \<open>Printing numbers and values\<close>

text \<open>The status of an HTTP response is an integer of three digits, printed in decimal.\<close>

definition digit_char :: "nat \<Rightarrow> char" where
  "digit_char d = ''0123456789'' ! d"

fun show_nat :: "nat \<Rightarrow> string" where
  "show_nat n = (if n < 10 then [digit_char n] else show_nat (n div 10) @ [digit_char (n mod 10)])"

declare show_nat.simps [simp del]

definition show_int :: "int \<Rightarrow> string" where
  "show_int i = (if i < 0 then CHR ''-'' # show_nat (nat (- i)) else show_nat (nat i))"

text \<open>
  \<^verbatim>\<open>String(v)\<close>, as a template literal or a property key applies it; \<open>None\<close> is the
  \<^verbatim>\<open>TypeError\<close> of a value with no primitive form. An object parsed from JSON prints as
  \<^verbatim>\<open>[object Object]\<close> unless it has an own \<^verbatim>\<open>toString\<close> member, which is then not callable.
  An array joins its elements with commas, \<^verbatim>\<open>null\<close> elements printing as nothing.
\<close>

fun to_str :: "json \<Rightarrow> string option"
  and join_elems :: "json list \<Rightarrow> string option" where
  "to_str JNull = Some ''null''"
| "to_str (JBool b) = Some (if b then ''true'' else ''false'')"
| "to_str (JNum n) = Some n"
| "to_str (JStr s) = Some s"
| "to_str (JArr xs) = join_elems xs"
| "to_str (JObj kvs) =
     (if map_of kvs ''toString'' = None then Some ''[object Object]'' else None)"
| "join_elems [] = Some []"
| "join_elems (x # xs) =
     (case (if x = JNull then Some [] else to_str x) of
        None \<Rightarrow> None
      | Some s \<Rightarrow>
          (if xs = [] then Some s
           else (case join_elems xs of None \<Rightarrow> None | Some t \<Rightarrow> Some (s @ '','' @ t))))"

text \<open>
  \<^verbatim>\<open>v.toString()\<close> on a value that is neither \<^verbatim>\<open>undefined\<close> nor \<^verbatim>\<open>null\<close>; it throws in
  the same cases.
\<close>

definition call_toString :: "json \<Rightarrow> string option" where
  "call_toString v = to_str v"

subsection \<open>\<^verbatim>\<open>JSON.stringify\<close>\<close>

definition hex_char :: "nat \<Rightarrow> char" where
  "hex_char d = ''0123456789abcdef'' ! d"

definition escape_char :: "char \<Rightarrow> string" where
  "escape_char c =
     (if c = CHR ''\"'' then [CHR 0x5C, CHR ''\"'']
      else if c = CHR 0x5C then [CHR 0x5C, CHR 0x5C]
      else if c = CHR 0x08 then [CHR 0x5C, CHR ''b'']
      else if c = CHR 0x0C then [CHR 0x5C, CHR ''f'']
      else if c = CHR 0x0A then [CHR 0x5C, CHR ''n'']
      else if c = CHR 0x0D then [CHR 0x5C, CHR ''r'']
      else if c = CHR 0x09 then [CHR 0x5C, CHR ''t'']
      else if of_char c < (32 :: nat)
        then [CHR 0x5C, CHR ''u'', CHR ''0'', CHR ''0'',
              hex_char (of_char c div 16), hex_char (of_char c mod 16)]
      else [c])"

definition quote :: "string \<Rightarrow> string" where
  "quote s = CHR ''\"'' # concat (map escape_char s) @ [CHR ''\"'']"

fun intersperse :: "string \<Rightarrow> string list \<Rightarrow> string" where
  "intersperse sep [] = []"
| "intersperse sep [x] = x"
| "intersperse sep (x # y # ys) = x @ sep @ intersperse sep (y # ys)"

fun stringify :: "json \<Rightarrow> string"
  and stringify_elems :: "json list \<Rightarrow> string list"
  and stringify_members :: "(string \<times> json) list \<Rightarrow> string list" where
  "stringify JNull = ''null''"
| "stringify (JBool b) = (if b then ''true'' else ''false'')"
| "stringify (JNum n) = n"
| "stringify (JStr s) = quote s"
| "stringify (JArr xs) = ''['' @ intersperse '','' (stringify_elems xs) @ '']''"
| "stringify (JObj kvs) = ''{'' @ intersperse '','' (stringify_members kvs) @ ''}''"
| "stringify_elems [] = []"
| "stringify_elems (x # xs) = stringify x # stringify_elems xs"
| "stringify_members [] = []"
| "stringify_members ((k, v) # kvs) = (quote k @ '':'' @ stringify v) # stringify_members kvs"

subsection \<open>Strings\<close>

text \<open>\<^verbatim>\<open>s.split(c)\<close> for a one-character separator: always at least one piece.\<close>

fun split_on :: "char \<Rightarrow> string \<Rightarrow> string list" where
  "split_on c [] = [[]]"
| "split_on c (x # xs) =
     (if x = c then [] # split_on c xs
      else (case split_on c xs of
              [] \<Rightarrow> [[x]]
            | p # ps \<Rightarrow> (x # p) # ps))"

text \<open>
  \<^verbatim>\<open>s.trim()\<close>: the white space among the 8-bit characters is tab, line feed, vertical
  tab, form feed, carriage return, space and no-break space.
\<close>

definition is_space :: "char \<Rightarrow> bool" where
  "is_space c = (of_char c \<in> {9, 10, 11, 12, 13, 32, 160 :: nat})"

definition trim :: "string \<Rightarrow> string" where
  "trim s = rev (dropWhile is_space (rev (dropWhile is_space s)))"

definition starts_with :: "string \<Rightarrow> string \<Rightarrow> bool" where
  "starts_with p s = (take (length p) s = p)"

text \<open>
  \<^verbatim>\<open>s.replace(p, r)\<close> with a string pattern: only the first occurrence of \<open>p\<close> is
  replaced, wherever it stands.
\<close>

fun replace_first :: "string \<Rightarrow> string \<Rightarrow> string \<Rightarrow> string" where
  "replace_first p r [] = (if p = [] then r else [])"
| "replace_first p r (c # cs) =
     (if starts_with p (c # cs) then r @ drop (length p) (c # cs)
      else c # replace_first p r cs)"

subsection \<open>Plain objects used as dictionaries\<close>

text \<open>
  An object is the list of its own properties in the order they were added.
  \<^verbatim>\<open>o[k] = v\<close> overwrites in place or appends.
\<close>

fun obj_set :: "(string \<times> 'v) list \<Rightarrow> string \<Rightarrow> 'v \<Rightarrow> (string \<times> 'v) list" where
  "obj_set [] k v = [(k, v)]"
| "obj_set ((k', v') # kvs) k v =
     (if k' = k then (k, v) # kvs else (k', v') # obj_set kvs k v)"

text \<open>\<^verbatim>\<open>{...o, k1: v1, k2: v2}\<close>: the members are set from left to right.\<close>

fun obj_extend :: "(string \<times> 'v) list \<Rightarrow> (string \<times> 'v) list \<Rightarrow> (string \<times> 'v) list" where
  "obj_extend obj [] = obj"
| "obj_extend obj ((k, v) # kvs) = obj_extend (obj_set obj k v) kvs"

text \<open>
  \<^verbatim>\<open>Object.keys(o)\<close>: keys that are array indices (\<^verbatim>\<open>"0"\<close>, \<^verbatim>\<open>"17"\<close>; canonical decimal,
  below \<open>2\<^sup>3\<^sup>2 - 1\<close>) come first in ascending order, the others follow in insertion order.
\<close>

definition is_digit :: "char \<Rightarrow> bool" where
  "is_digit c = (48 \<le> (of_char c :: nat) \<and> (of_char c :: nat) \<le> 57)"

definition digits_value :: "string \<Rightarrow> int" where
  "digits_value s = foldl (\<lambda>n c. 10 * n + (of_char c - 48)) 0 s"

definition array_index :: "string \<Rightarrow> int option" where
  "array_index s =
     (if s \<noteq> [] \<and> list_all is_digit s \<and> (s = ''0'' \<or> hd s \<noteq> CHR ''0'')
         \<and> digits_value s < 4294967295
      then Some (digits_value s) else None)"

definition index_rank :: "string \<Rightarrow> int" where
  "index_rank k = (case array_index k of None \<Rightarrow> 0 | Some n \<Rightarrow> n)"

definition object_keys :: "(string \<times> 'v) list \<Rightarrow> string list" where
  "object_keys obj =
     sort_key index_rank (filter (\<lambda>k. array_index k \<noteq> None) (map fst obj))
       @ filter (\<lambda>k. array_index k = None) (map fst obj)"

text \<open>
  A read \<^verbatim>\<open>o[k]\<close> on an object created by \<^verbatim>\<open>{}\<close> also finds what every object inherits
  from \<^verbatim>\<open>Object.prototype\<close>. These are the names the Deno runtime defines there; each
  holds a built-in function.
\<close>

definition object_prototype_names :: "string list" where
  "object_prototype_names =
     [''constructor'', ''__defineGetter__'', ''__defineSetter__'', ''hasOwnProperty'',
      ''__lookupGetter__'', ''__lookupSetter__'', ''isPrototypeOf'', ''propertyIsEnumerable'',
      ''toString'', ''valueOf'', ''toLocaleString'']"

datatype workflow_ref = Configured string | Inherited string

definition lookup_workflow :: "(string \<times> string) list \<Rightarrow> string \<Rightarrow> workflow_ref option" where
  "lookup_workflow wm k =
     (case map_of wm k of
        Some v \<Rightarrow> Some (Configured v)
      | None \<Rightarrow> (if k \<in> set object_prototype_names then Some (Inherited k) else None))"

fun wf_truthy :: "workflow_ref \<Rightarrow> bool" where
  "wf_truthy (Configured v) = (v \<noteq> [])"
| "wf_truthy (Inherited k) = True"

text \<open>The text a template literal prints for the looked-up value.\<close>

fun wf_text :: "workflow_ref \<Rightarrow> string" where
  "wf_text (Configured v) = v"
| "wf_text (Inherited k) =
     ''function '' @ (if k = ''constructor'' then ''Object'' else k) @ ''() { [native code] }''"

text \<open>The member \<^verbatim>\<open>JSON.stringify\<close> writes for it: a function-valued member is left out.\<close>

fun wf_member :: "string \<Rightarrow> workflow_ref \<Rightarrow> object" where
  "wf_member name (Configured v) = [(name, JStr v)]"
| "wf_member name (Inherited k) = []"

section \<open>The surroundings of one request\<close>

text \<open>
  The handler reads five environment variables, the clock (twice), and the answers of
  the two calls it makes to the GitHub API. All of them are inputs of the model.
  \<^verbatim>\<open>console\<close> output is not modelled, except that printing a value can throw.
\<close>

record environment =
  GITHUB_TOKEN :: "string option"
  AUTOMATION_REPO_OWNER :: "string option"
  AUTOMATION_REPO_NAME :: "string option"
  WORKFLOW_MAPPINGS :: "string option"
  ENVIRONMENT :: "string option"

text \<open>\<^verbatim>\<open>!x\<close> for \<^verbatim>\<open>Deno.env.get\<close> and \<^verbatim>\<open>headers.get\<close>: unset or empty.\<close>

fun unset :: "string option \<Rightarrow> bool" where
  "unset None = True"
| "unset (Some s) = (s = [])"

text \<open>
  A response of \<^verbatim>\<open>fetch\<close>: reading its body as text or as JSON may throw (\<open>Inl\<close> holds the
  message of what is thrown).
\<close>

record http_response =
  resp_status :: int
  resp_text :: "string + string"
  resp_json :: "string + json"

definition ok :: "http_response \<Rightarrow> bool" where
  "ok r = (200 \<le> resp_status r \<and> resp_status r \<le> 299)"

datatype fetch_outcome = Rejected string | Responded http_response

record world =
  env :: environment
  clock_inputs :: string
  clock_response :: string
  repo_fetch :: fetch_outcome
  dispatch_fetch :: fetch_outcome
  error_stack :: string

text \<open>The inbound request: the \<^verbatim>\<open>x-github-event\<close> header and what \<^verbatim>\<open>req.json()\<close> gives.\<close>

record request =
  event_header :: "string option"
  body_json :: "string + json"

text \<open>The calls the handler makes, in the order it makes them.\<close>

datatype outbound =
    Fetch_repo string string
  | Dispatch string string json object

text \<open>
  The handler's answer: the status and the members of the JSON body, in order; a member
  whose value is \<^verbatim>\<open>undefined\<close> is not written.
\<close>

record response =
  status_code :: nat
  body :: object

definition reply :: "nat \<Rightarrow> object \<Rightarrow> response" where
  "reply code members = \<lparr>status_code = code, body = members\<rparr>"

type_synonym outcome = "response \<times> outbound list"

section \<open>The handler\<close>

subsection \<open>The catch-all (lines 630-646)\<close>

definition server_error :: "world \<Rightarrow> string \<Rightarrow> response" where
  "server_error w msg =
     reply 500
       ([(''error'', JStr ''Server error''), (''message'', JStr msg)]
        @ (if ENVIRONMENT (env w) = Some ''development''
           then [(''stack'', JStr (error_stack w))] else []))"

text \<open>The messages of the two \<^verbatim>\<open>TypeError\<close>s that can arise, as V8 words them.\<close>

definition read_null_message :: "string \<Rightarrow> string" where
  "read_null_message k = ''Cannot read properties of null (reading '' @ [CHR 0x27] @ k @ [CHR 0x27] @ '')''"

definition to_primitive_message :: string where
  "to_primitive_message = ''Cannot convert object to primitive value''"

subsection \<open>Default branch of the automation repository (lines 245-302)\<close>

definition repo_url :: "string \<Rightarrow> string \<Rightarrow> string" where
  "repo_url owner name = ''https://api.github.com/repos/'' @ owner @ ''/'' @ name"

definition metadata_failed :: "string \<Rightarrow> response" where
  "metadata_failed msg =
     reply 500 [(''error'', JStr ''Failed to fetch automation repository metadata''),
                (''message'', JStr msg)]"

definition fetch_default_branch :: "world \<Rightarrow> response + json" where
  "fetch_default_branch w =
     (case repo_fetch w of
        Rejected msg \<Rightarrow> Inl (metadata_failed msg)
      | Responded r \<Rightarrow>
          if \<not> ok r then
            (case resp_text r of
               Inl msg \<Rightarrow> Inl (metadata_failed msg)
             | Inr errorText \<Rightarrow>
                 Inl (reply 500
                   [(''error'', JStr ''Failed to fetch automation repository metadata''),
                    (''status'', JNum (show_int (resp_status r))),
                    (''details'', JStr errorText)]))
          else
            (case resp_json r of
               Inl msg \<Rightarrow> Inl (metadata_failed msg)
             | Inr repoData \<Rightarrow>
                 if repoData = JNull
                 then Inl (metadata_failed (read_null_message ''default_branch''))
                 else
                   (case get_prop repoData ''default_branch'' of
                      None \<Rightarrow>
                        Inl (reply 500
                          [(''error'', JStr ''Could not determine default branch for automation repository''),
                           (''repo_data'', repoData)])
                    | Some workflowBranch \<Rightarrow>
                        if \<not> truthy workflowBranch then
                          Inl (reply 500
                            [(''error'', JStr ''Could not determine default branch for automation repository''),
                             (''repo_data'', repoData)])
                        else if to_str workflowBranch = None
                        then Inl (metadata_failed to_primitive_message)
                        else Inr workflowBranch)))"

subsection \<open>Base inputs (lines 304-318)\<close>

definition repository_full_name :: "json \<Rightarrow> json" where
  "repository_full_name payload =
     (case get_prop payload ''repository'' of
        None \<Rightarrow> JStr []
      | Some repository \<Rightarrow>
          if truthy repository then or_else (get_prop repository ''full_name'') (JStr [])
          else JStr [])"

definition base_inputs :: "string \<Rightarrow> string \<Rightarrow> json \<Rightarrow> object" where
  "base_inputs event now payload =
     (let inputs = [(''event_type'', JStr event), (''timestamp'', JStr now)];
          repositoryFullName = repository_full_name payload;
          inputs = (if truthy repositoryFullName
                    then obj_set inputs ''repository'' repositoryFullName else inputs)
      in (case get_prop payload ''sender'' of
            None \<Rightarrow> inputs
          | Some sender \<Rightarrow>
              if truthy sender
              then obj_set inputs ''sender'' (or_else (get_prop sender ''login'') (JStr ''Unknown''))
              else inputs))"

subsection \<open>Workflow mapping (lines 320-382)\<close>

definition add_mapping :: "(string \<times> string) list \<Rightarrow> string \<Rightarrow> (string \<times> string) list" where
  "add_mapping workflowMapping mapping =
     (case split_on CHR '':'' mapping of
        repo # workflow # rest \<Rightarrow>
          if repo \<noteq> [] \<and> workflow \<noteq> []
          then obj_set workflowMapping (trim repo) (trim workflow)
          else workflowMapping
      | _ \<Rightarrow> workflowMapping)"

definition parse_mappings :: "string \<Rightarrow> (string \<times> string) list" where
  "parse_mappings s = foldl add_mapping [] (split_on CHR '','' s)"

definition mapping_failed :: "string \<Rightarrow> response" where
  "mapping_failed msg =
     reply 500 [(''error'', JStr ''Failed to load workflow mapping''), (''message'', JStr msg)]"

definition not_configured :: "string \<Rightarrow> (string \<times> string) list \<Rightarrow> response" where
  "not_configured name workflowMapping =
     reply 400
       [(''error'', JStr ''Repository not configured''),
        (''message'', JStr (''No workflow mapping found for repository: '' @ name)),
        (''available_repositories'', JArr (map JStr (object_keys workflowMapping)))]"

definition resolve_workflow :: "string \<Rightarrow> json \<Rightarrow> response + workflow_ref" where
  "resolve_workflow mappings repositoryFullName =
     (let workflowMapping = parse_mappings mappings in
      if length (object_keys workflowMapping) = 0
      then Inl (mapping_failed ''No valid mappings found'')
      else if \<not> truthy repositoryFullName
      then Inl (not_configured [] workflowMapping)
      else
        (case to_str repositoryFullName of
           None \<Rightarrow> Inl (mapping_failed to_primitive_message)
         | Some name \<Rightarrow>
             (case lookup_workflow workflowMapping name of
                None \<Rightarrow> Inl (not_configured name workflowMapping)
              | Some workflowFilename \<Rightarrow>
                  if wf_truthy workflowFilename then Inr workflowFilename
                  else Inl (not_configured name workflowMapping))))"

subsection \<open>Intake and target resolution (lines 196-385)\<close>

text \<open>What the later stages use once the target is resolved.\<close>

record target =
  ctx_event :: string
  ctx_payload :: json
  ctx_token :: string
  ctx_owner :: string
  ctx_name :: string
  ctx_branch :: json
  ctx_inputs :: object
  ctx_workflow :: workflow_ref

definition fetch_call :: "string \<Rightarrow> string \<Rightarrow> string \<Rightarrow> outbound" where
  "fetch_call owner name token = Fetch_repo (repo_url owner name) token"

definition workflow_url :: "target \<Rightarrow> string" where
  "workflow_url ctx =
     repo_url (ctx_owner ctx) (ctx_name ctx) @ ''/actions/workflows/''
       @ wf_text (ctx_workflow ctx) @ ''/dispatches''"

definition missing_header :: outcome where
  "missing_header = (reply 400 [(''error'', JStr ''Missing GitHub event header'')], [])"

definition missing_token :: outcome where
  "missing_token =
     (reply 500
        [(''error'', JStr ''Server configuration error: missing authentication token'')], [])"

definition missing_repository :: outcome where
  "missing_repository =
     (reply 500
        [(''error'', JStr ''Server configuration error: missing repository configuration'')], [])"

definition missing_mappings :: response where
  "missing_mappings =
     reply 500 [(''error'', JStr ''Server configuration error: missing workflow mappings'')]"

text \<open>Lines 304-385, after the payload is parsed and the default branch is known.\<close>

definition resolve_mapping ::
  "world \<Rightarrow> string \<Rightarrow> string \<Rightarrow> string \<Rightarrow> string \<Rightarrow> json \<Rightarrow> json \<Rightarrow> response + target" where
  "resolve_mapping w event token owner name payload workflowBranch =
     (if payload = JNull then Inl (server_error w (read_null_message ''repository''))
      else
        (case WORKFLOW_MAPPINGS (env w) of
           None \<Rightarrow> Inl missing_mappings
         | Some mappings \<Rightarrow>
             if mappings = [] then Inl missing_mappings
             else
               (case resolve_workflow mappings (repository_full_name payload) of
                  Inl failure \<Rightarrow> Inl failure
                | Inr workflowFilename \<Rightarrow>
                    if \<not> wf_truthy workflowFilename then
                      Inl (reply 500
                        [(''error'', JStr ''Could not determine workflow filename''),
                         (''repository'', repository_full_name payload)])
                    else
                      Inr \<lparr>ctx_event = event, ctx_payload = payload,
                           ctx_token = token, ctx_owner = owner, ctx_name = name,
                           ctx_branch = workflowBranch,
                           ctx_inputs = base_inputs event (clock_inputs w) payload,
                           ctx_workflow = workflowFilename\<rparr>)))"

definition resolve_target :: "world \<Rightarrow> request \<Rightarrow> outcome + target" where
  "resolve_target w req =
     (case event_header req of
        None \<Rightarrow> Inl missing_header
      | Some event \<Rightarrow>
     if event = [] then Inl missing_header else
     (case GITHUB_TOKEN (env w) of
        None \<Rightarrow> Inl missing_token
      | Some token \<Rightarrow>
     if token = [] then Inl missing_token else
     (case AUTOMATION_REPO_OWNER (env w) of
        None \<Rightarrow> Inl missing_repository
      | Some owner \<Rightarrow>
     (case AUTOMATION_REPO_NAME (env w) of
        None \<Rightarrow> Inl missing_repository
      | Some name \<Rightarrow>
     if owner = [] \<or> name = [] then Inl missing_repository else
     (case body_json req of
        Inl parse_error \<Rightarrow> Inl (reply 400 [(''error'', JStr ''Invalid JSON payload'')], [])
      | Inr payload \<Rightarrow>
     (case fetch_default_branch w of
        Inl failure \<Rightarrow> Inl (failure, [fetch_call owner name token])
      | Inr workflowBranch \<Rightarrow>
     (case resolve_mapping w event token owner name payload workflowBranch of
        Inl failure \<Rightarrow> Inl (failure, [fetch_call owner name token])
      | Inr ctx \<Rightarrow> Inr ctx)))))))"

subsection \<open>Push events (lines 390-437)\<close>

text \<open>
  The result of a normalizer is either the response that ends the request or the inputs
  with the source branch.
\<close>

definition normalize_push :: "target \<Rightarrow> response + (object \<times> json)" where
  "normalize_push ctx =
     (let payload = ctx_payload ctx in
      if get_prop payload ''deleted'' = Some (JBool True)
      then Inl (reply 200 [(''message'', JStr ''Branch deletion event, no build needed'')])
      else if falsy (get_prop payload ''ref'')
      then Inl (reply 400 [(''error'', JStr ''Invalid push event payload: missing ref'')])
      else
        (case get_prop payload ''ref'' of
           Some (JStr ref) \<Rightarrow>
             (let sourceRepoBranch = replace_first ''refs/heads/'' [] ref in
              if sourceRepoBranch = []
              then Inl (reply 400 [(''error'', JStr ''Invalid branch reference format'')])
              else
                Inr (obj_extend (ctx_inputs ctx)
                       [(''branch'', JStr sourceRepoBranch),
                        (''author'', or_else (opt_get (get_prop payload ''pusher'') ''name'')
                                       (JStr ''Unknown'')),
                        (''commit_sha'', or_else (get_prop payload ''after'') (JStr [])),
                        (''commit_message'',
                           or_else (opt_get (get_prop payload ''head_commit'') ''message'') (JStr [])),
                        (''commit_url'',
                           or_else (opt_get (get_prop payload ''head_commit'') ''url'') (JStr []))],
                     JStr sourceRepoBranch))
         | _ \<Rightarrow> Inl (reply 400 [(''error'', JStr ''Failed to process push event data'')])))"

subsection \<open>Pull request events (lines 438-501)\<close>

definition buildTriggeringActions :: "json list" where
  "buildTriggeringActions = [JStr ''opened'', JStr ''reopened'', JStr ''synchronize'']"

definition no_build_message :: "string \<Rightarrow> string" where
  "no_build_message action =
     ''PR action '' @ [CHR 0x27] @ action @ [CHR 0x27] @ '' doesn'' @ [CHR 0x27]
       @ ''t trigger a build''"

text \<open>\<^verbatim>\<open>payload.number?.toString() || ""\<close>; \<open>None\<close> when \<^verbatim>\<open>toString\<close> throws.\<close>

definition pr_number_text :: "json \<Rightarrow> json option" where
  "pr_number_text payload =
     (case get_prop payload ''number'' of
        None \<Rightarrow> Some (JStr [])
      | Some n \<Rightarrow>
          if n = JNull then Some (JStr [])
          else (case call_toString n of None \<Rightarrow> None | Some s \<Rightarrow> Some (JStr s)))"

definition normalize_pull_request :: "world \<Rightarrow> target \<Rightarrow> response + (object \<times> json)" where
  "normalize_pull_request w ctx =
     (let payload = ctx_payload ctx in
      if falsy (get_prop payload ''action'') \<or> falsy (get_prop payload ''pull_request'')
      then Inl (reply 400
             [(''error'', JStr ''Invalid PR event payload: missing action or pull_request'')])
      else
        (case (get_prop payload ''action'', get_prop payload ''pull_request'') of
           (Some prAction, Some pull_request) \<Rightarrow>
             if prAction \<notin> set buildTriggeringActions then
               (case to_str prAction of
                  None \<Rightarrow> Inl (server_error w to_primitive_message)
                | Some action \<Rightarrow>
                    Inl (reply 200
                      ([(''message'', JStr (no_build_message action))]
                       @ (case get_prop payload ''number'' of
                            None \<Rightarrow> []
                          | Some n \<Rightarrow> [(''pr_number'', n)])
                       @ [(''pr_action'', prAction)])))
             else
               (let sourceRepoBranch =
                      or_else (opt_get (get_prop pull_request ''head'') ''ref'') (JStr []) in
                if \<not> truthy sourceRepoBranch
                then Inl (reply 400 [(''error'', JStr ''Missing branch information in PR data'')])
                else
                  (case pr_number_text payload of
                     None \<Rightarrow> Inl (reply 400 [(''error'', JStr ''Failed to process PR event data'')])
                   | Some pr_number \<Rightarrow>
                       Inr (obj_extend (ctx_inputs ctx)
                              [(''branch'', sourceRepoBranch),
                               (''pr_number'', pr_number),
                               (''pr_action'', prAction),
                               (''author'',
                                  or_else (opt_get (get_prop pull_request ''user'') ''login'')
                                    (JStr ''Unknown'')),
                               (''pr_title'', or_else (get_prop pull_request ''title'') (JStr [])),
                               (''pr_url'', or_else (get_prop pull_request ''html_url'') (JStr [])),
                               (''target_branch'',
                                  or_else (opt_get (get_prop pull_request ''base'') ''ref'') (JStr []))],
                            sourceRepoBranch)))
         | _ \<Rightarrow>
             Inl (reply 400
               [(''error'', JStr ''Invalid PR event payload: missing action or pull_request'')])))"

subsection \<open>At most ten inputs (lines 524-555)\<close>

definition essentialKeys :: "string list" where
  "essentialKeys =
     [''event_type'', ''timestamp'', ''repository'', ''sender'', ''branch'', ''author'',
      ''commit_sha'', ''pr_number'', ''pr_title'', ''target_branch'']"

text \<open>
  The loop over \<^verbatim>\<open>essentialKeys\<close>: the keys still to visit, the inputs, and
  \<^verbatim>\<open>trimmedInputs\<close> so far. It stops once ten members are kept.
\<close>

fun trim_loop :: "string list \<Rightarrow> object \<Rightarrow> object \<Rightarrow> object" where
  "trim_loop [] inputs trimmedInputs = trimmedInputs"
| "trim_loop (key # keys) inputs trimmedInputs =
     (case map_of inputs key of
        None \<Rightarrow> trim_loop keys inputs trimmedInputs
      | Some v \<Rightarrow>
          (let trimmedInputs = obj_set trimmedInputs key v in
           if length (object_keys trimmedInputs) \<ge> 10 then trimmedInputs
           else trim_loop keys inputs trimmedInputs))"

definition limit_inputs :: "object \<Rightarrow> object" where
  "limit_inputs inputs =
     (if length (object_keys inputs) > 10 then trim_loop essentialKeys inputs [] else inputs)"

subsection \<open>Branch check and dispatch (lines 511-522 and 557-629)\<close>

definition dispatch_workflow :: "world \<Rightarrow> target \<Rightarrow> object \<Rightarrow> json \<Rightarrow> response" where
  "dispatch_workflow w ctx inputs sourceRepoBranch =
     (case dispatch_fetch w of
        Rejected msg \<Rightarrow>
          reply 500 [(''error'', JStr ''Network error''), (''message'', JStr msg)]
      | Responded res \<Rightarrow>
          if ok res then
            reply 200
              ([(''message'', JStr ''Workflow triggered successfully''),
                (''event'', JStr (ctx_event ctx)),
                (''inputs'', JObj inputs),
                (''automation_repo'', JStr (ctx_owner ctx @ ''/'' @ ctx_name ctx))]
               @ wf_member ''workflow_filename'' (ctx_workflow ctx)
               @ [(''workflow_branch'', ctx_branch ctx),
                  (''source_branch'', sourceRepoBranch),
                  (''timestamp'', JStr (clock_response w))])
          else
            reply 500
              [(''error'', JStr ''Failed to trigger workflow''),
               (''status'', JNum (show_int (resp_status res))),
               (''details'',
                  (case resp_json res of
                     Inr errorJson \<Rightarrow>
                       if truthy errorJson then errorJson else JStr (stringify errorJson)
                   | Inl e \<Rightarrow>
                       (case resp_text res of
                          Inr errorText \<Rightarrow> JStr errorText
                        | Inl e2 \<Rightarrow> JStr ''Could not read error response'')))])"

definition dispatch_call :: "target \<Rightarrow> object \<Rightarrow> outbound" where
  "dispatch_call ctx inputs = Dispatch (workflow_url ctx) (ctx_token ctx) (ctx_branch ctx) inputs"

definition finish :: "world \<Rightarrow> target \<Rightarrow> object \<Rightarrow> json \<Rightarrow> outcome" where
  "finish w ctx inputs sourceRepoBranch =
     (if falsy (map_of inputs ''branch'') then
        (reply 400
           [(''error'', JStr ''Could not determine branch to build''),
            (''event'', JStr (ctx_event ctx)),
            (''payload_excerpt'', JStr (take 1000 (stringify (ctx_payload ctx))))],
         [])
      else
        (let inputs = limit_inputs inputs in
         (dispatch_workflow w ctx inputs sourceRepoBranch, [dispatch_call ctx inputs])))"

subsection \<open>The whole handler (lines 195-647)\<close>

text \<open>
  The branch on the event kind: the inputs of a push or a pull request, or the response
  that ends the request (every other kind is answered at once).
\<close>

definition normalize :: "world \<Rightarrow> target \<Rightarrow> response + (object \<times> json)" where
  "normalize w ctx =
     (if ctx_event ctx = ''push'' then normalize_push ctx
      else if ctx_event ctx = ''pull_request'' then normalize_pull_request w ctx
      else Inl (reply 200 [(''message'', JStr (''Ignored event: '' @ ctx_event ctx))]))"

definition process_event :: "world \<Rightarrow> target \<Rightarrow> outcome" where
  "process_event w ctx =
     (case normalize w ctx of
        Inl early \<Rightarrow> (early, [])
      | Inr (inputs, sourceRepoBranch) \<Rightarrow> finish w ctx inputs sourceRepoBranch)"

text \<open>
  The response and the outbound calls of one request. The metadata fetch has been made
  whenever the target is resolved, so it heads the calls of the event stage.
\<close>

definition handler :: "world \<Rightarrow> request \<Rightarrow> outcome" where
  "handler w req =
     (case resolve_target w req of
        Inl early \<Rightarrow> early
      | Inr ctx \<Rightarrow>
          (case process_event w ctx of
             (res, calls) \<Rightarrow>
               (res, fetch_call (ctx_owner ctx) (ctx_name ctx) (ctx_token ctx) # calls)))"

section \<open>Notions used in the statements\<close>

text \<open>
  The trimming policy as the specification words it: keep the keys of the priority list
  that are present, in the order of the list, with the values they have in the inputs.
\<close>

definition kept :: "object \<Rightarrow> string list \<Rightarrow> object" where
  "kept inputs keys = List.map_filter (\<lambda>k. map_option (Pair k) (map_of inputs k)) keys"



text \<open>The inputs carried by the dispatch calls among the outbound calls.\<close>

fun dispatched_inputs :: "outbound list \<Rightarrow> object list" where
  "dispatched_inputs [] = []"
| "dispatched_inputs (Dispatch url token ref inputs # calls) = inputs # dispatched_inputs calls"
| "dispatched_inputs (Fetch_repo url token # calls) = dispatched_inputs calls"

text \<open>Whether a value is a string, and whether a text occurs somewhere in another.\<close>

fun is_string :: "json \<Rightarrow> bool" where
  "is_string (JStr s) = True"
| "is_string v = False"

fun occurs :: "string \<Rightarrow> string \<Rightarrow> bool" where
  "occurs p [] = (p = [])"
| "occurs p (c # cs) = (starts_with p (c # cs) \<or> occurs p cs)"

text \<open>The branches named by the dispatch calls among the outbound calls.\<close>

fun dispatched_branches :: "outbound list \<Rightarrow> json option list" where
  "dispatched_branches [] = []"
| "dispatched_branches (Dispatch url token ref inputs # calls) =
     map_of inputs ''branch'' # dispatched_branches calls"
| "dispatched_branches (Fetch_repo url token # calls) = dispatched_branches calls"

section \<open>Sample surroundings and requests\<close>

definition env_ok :: environment where
  "env_ok =
     \<lparr>GITHUB_TOKEN = Some ''t0ken'',
      AUTOMATION_REPO_OWNER = Some ''acme'',
      AUTOMATION_REPO_NAME = Some ''automation'',
      WORKFLOW_MAPPINGS = Some ''acme/app:ci.yml,acme/site:deploy.yml'',
      ENVIRONMENT = None\<rparr>"

definition metadata_response :: http_response where
  "metadata_response =
     \<lparr>resp_status = 200, resp_text = Inr [],
      resp_json = Inr (JObj [(''default_branch'', JStr ''main'')])\<rparr>"

definition accepted_response :: http_response where
  "accepted_response =
     \<lparr>resp_status = 204, resp_text = Inr [], resp_json = Inl ''Unexpected end of JSON input''\<rparr>"

definition w_ok :: world where
  "w_ok =
     \<lparr>env = env_ok,
      clock_inputs = ''2024-01-01T00:00:00.000Z'',
      clock_response = ''2024-01-01T00:00:01.000Z'',
      repo_fetch = Responded metadata_response,
      dispatch_fetch = Responded accepted_response,
      error_stack = ''TypeError: at handler''\<rparr>"

text \<open>The same surroundings with one thing changed.\<close>

definition w_without_mappings :: world where
  "w_without_mappings = w_ok\<lparr>env := env_ok\<lparr>WORKFLOW_MAPPINGS := None\<rparr>\<rparr>"

definition w_without_token :: world where
  "w_without_token = w_ok\<lparr>env := env_ok\<lparr>GITHUB_TOKEN := None\<rparr>\<rparr>"

definition w_unreachable :: world where
  "w_unreachable = w_ok\<lparr>repo_fetch := Rejected ''connection refused''\<rparr>"

definition w_development :: world where
  "w_development = w_ok\<lparr>env := env_ok\<lparr>ENVIRONMENT := Some ''development''\<rparr>\<rparr>"

definition w_site_unmapped :: world where
  "w_site_unmapped = w_ok\<lparr>env := env_ok\<lparr>WORKFLOW_MAPPINGS := Some ''acme/app:ci.yml''\<rparr>\<rparr>"

definition not_found_response :: http_response where
  "not_found_response =
     \<lparr>resp_status = 404, resp_text = Inr [],
      resp_json = Inr (JObj [(''message'', JStr ''Not Found'')])\<rparr>"

definition w_workflow_not_found :: world where
  "w_workflow_not_found = w_ok\<lparr>dispatch_fetch := Responded not_found_response\<rparr>"

definition null_request :: request where
  "null_request = \<lparr>event_header = Some ''push'', body_json = Inr JNull\<rparr>"

definition site_fetch :: outbound where
  "site_fetch = Fetch_repo ''https://api.github.com/repos/acme/automation'' ''t0ken''"

definition deploy_url :: string where
  "deploy_url =
     ''https://api.github.com/repos/acme/automation/actions/workflows/deploy.yml/dispatches''"

definition repository_payload :: "string \<Rightarrow> json" where
  "repository_payload full_name = JObj [(''repository'', JObj [(''full_name'', JStr full_name)])]"

definition event_request :: "string option \<Rightarrow> string \<Rightarrow> request" where
  "event_request header full_name =
     \<lparr>event_header = header, body_json = Inr (repository_payload full_name)\<rparr>"

definition push_payload :: "string \<Rightarrow> json" where
  "push_payload ref =
     JObj
       [(''ref'', JStr ref),
        (''after'', JStr ''abc123''),
        (''pusher'', JObj [(''name'', JStr ''alice'')]),
        (''repository'', JObj [(''full_name'', JStr ''acme/site'')])]"

definition push_request :: "string \<Rightarrow> request" where
  "push_request ref = \<lparr>event_header = Some ''push'', body_json = Inr (push_payload ref)\<rparr>"

text \<open>A push to \<^verbatim>\<open>main\<close> whose payload names the repository \<open>full_name\<close>.\<close>

definition named_push_payload :: "string \<Rightarrow> json" where
  "named_push_payload full_name =
     JObj
       [(''ref'', JStr ''refs/heads/main''),
        (''repository'', JObj [(''full_name'', JStr full_name)])]"

definition named_push_request :: "string \<Rightarrow> request" where
  "named_push_request full_name =
     \<lparr>event_header = Some ''push'', body_json = Inr (named_push_payload full_name)\<rparr>"

definition toString_url :: string where
  "toString_url =
     ''https://api.github.com/repos/acme/automation/actions/workflows/''
       @ ''function toString() { [native code] }'' @ ''/dispatches''"

definition push_inputs :: "string \<Rightarrow> object" where
  "push_inputs branch =
     [(''event_type'', JStr ''push''),
      (''timestamp'', JStr ''2024-01-01T00:00:00.000Z''),
      (''repository'', JStr ''acme/site''),
      (''branch'', JStr branch),
      (''author'', JStr ''alice''),
      (''commit_sha'', JStr ''abc123''),
      (''commit_message'', JStr []),
      (''commit_url'', JStr [])]"

definition pull_request_payload :: "string \<Rightarrow> json" where
  "pull_request_payload action =
     JObj
       [(''action'', JStr action),
        (''number'', JNum ''42''),
        (''pull_request'', JObj
           [(''head'', JObj [(''ref'', JStr ''feature'')]),
            (''base'', JObj [(''ref'', JStr ''main'')]),
            (''title'', JStr ''Add feature''),
            (''html_url'', JStr ''https://github.com/acme/site/pull/42''),
            (''user'', JObj [(''login'', JStr ''bob'')])]),
        (''repository'', JObj [(''full_name'', JStr ''acme/site'')]),
        (''sender'', JObj [(''login'', JStr ''bob'')])]"

definition pull_request_request :: "string \<Rightarrow> request" where
  "pull_request_request action =
     \<lparr>event_header = Some ''pull_request'', body_json = Inr (pull_request_payload action)\<rparr>"

text \<open>The target resolved for a sample request of the repository \<^verbatim>\<open>acme/site\<close>.\<close>

definition site_target :: "string \<Rightarrow> json \<Rightarrow> target" where
  "site_target event payload =
     \<lparr>ctx_event = event, ctx_payload = payload,
      ctx_token = ''t0ken'', ctx_owner = ''acme'', ctx_name = ''automation'',
      ctx_branch = JStr ''main'',
      ctx_inputs = base_inputs event ''2024-01-01T00:00:00.000Z'' payload,
      ctx_workflow = Configured ''deploy.yml''\<rparr>"

definition pull_request_target :: "string \<Rightarrow> target" where
  "pull_request_target action = site_target ''pull_request'' (pull_request_payload action)"

definition pull_request_inputs :: object where
  "pull_request_inputs =
     [(''event_type'', JStr ''pull_request''),
      (''timestamp'', JStr ''2024-01-01T00:00:00.000Z''),
      (''repository'', JStr ''acme/site''),
      (''sender'', JStr ''bob''),
      (''branch'', JStr ''feature''),
      (''pr_number'', JStr ''42''),
      (''pr_action'', JStr ''opened''),
      (''author'', JStr ''bob''),
      (''pr_title'', JStr ''Add feature''),
      (''pr_url'', JStr ''https://github.com/acme/site/pull/42''),
      (''target_branch'', JStr ''main'')]"

section \<open>Supporting lemmas\<close>

subsection \<open>Objects\<close>

lemma map_of_obj_set:
  "map_of (obj_set obj k v) k' = (if k' = k then Some v else map_of obj k')"
  by (induction obj) auto

lemma obj_set_fresh: "map_of obj k = None \<Longrightarrow> obj_set obj k v = obj @ [(k, v)]"
  by (induction obj) (auto split: if_splits)

lemma length_object_keys: "length (object_keys obj) = length obj"
proof -
  have "length (filter (\<lambda>k. array_index k \<noteq> None) (map fst obj))
          + length (filter (\<lambda>k. \<not> array_index k \<noteq> None) (map fst obj)) = length (map fst obj)"
    by (rule sum_length_filter_compl)
  then show ?thesis by (simp add: object_keys_def)
qed

lemma set_object_keys: "set (object_keys obj) = fst ` set obj"
  by (auto simp: object_keys_def)

subsection \<open>The trimming loop computes the kept members\<close>

lemma kept_Nil: "kept inputs [] = []"
  by (simp add: kept_def map_filter_simps)

lemma kept_Cons:
  "kept inputs (k # ks) =
     (case map_of inputs k of None \<Rightarrow> kept inputs ks | Some v \<Rightarrow> (k, v) # kept inputs ks)"
  by (simp add: kept_def map_filter_simps split: option.splits)

lemma keys_kept: "map fst (kept inputs keys) = filter (\<lambda>k. map_of inputs k \<noteq> None) keys"
  by (induction keys) (auto simp: kept_Nil kept_Cons split: option.splits)

lemma map_of_kept:
  "map_of (kept inputs keys) k = (if k \<in> set keys then map_of inputs k else None)"
  by (induction keys) (auto simp: kept_Nil kept_Cons split: option.splits)

lemma length_kept: "length (kept inputs keys) \<le> length keys"
  by (induction keys) (auto simp: kept_Nil kept_Cons split: option.splits)

lemma trim_loop_kept:
  "distinct keys \<Longrightarrow> (\<forall>k \<in> set keys. map_of acc k = None) \<Longrightarrow> length acc < 10 \<Longrightarrow>
   trim_loop keys inputs acc = take 10 (acc @ kept inputs keys)"
proof (induction keys arbitrary: acc)
  case Nil
  then show ?case by (simp add: kept_Nil)
next
  case (Cons key keys)
  show ?case
  proof (cases "map_of inputs key")
    case None
    with Cons show ?thesis by (simp add: kept_Cons)
  next
    case (Some v)
    from Cons.prems have fresh: "map_of acc key = None" by simp
    have acc': "obj_set acc key v = acc @ [(key, v)]" using fresh by (rule obj_set_fresh)
    show ?thesis
    proof (cases "length acc + 1 \<ge> 10")
      case True
      with Cons.prems have "length acc = 9" by simp
      then show ?thesis using Some acc' by (simp add: kept_Cons length_object_keys)
    next
      case False
      have "trim_loop keys inputs (acc @ [(key, v)]) = take 10 ((acc @ [(key, v)]) @ kept inputs keys)"
      proof (rule Cons.IH)
        show "distinct keys" using Cons.prems by simp
        show "\<forall>k\<in>set keys. map_of (acc @ [(key, v)]) k = None"
          using Cons.prems by (auto simp: map_add_def split: option.splits)
        show "length (acc @ [(key, v)]) < 10" using False by simp
      qed
      then show ?thesis using Some acc' False by (simp add: kept_Cons length_object_keys)
    qed
  qed
qed

lemma trim_loop_essential: "trim_loop essentialKeys inputs [] = kept inputs essentialKeys"
proof -
  have d: "distinct essentialKeys" by (simp add: essentialKeys_def)
  have "trim_loop essentialKeys inputs [] = take 10 ([] @ kept inputs essentialKeys)"
    by (rule trim_loop_kept) (use d in simp_all)
  moreover have "length (kept inputs essentialKeys) \<le> 10"
    using length_kept [of inputs essentialKeys] by (simp add: essentialKeys_def)
  ultimately show ?thesis by simp
qed

subsection \<open>The stages of the handler\<close>

lemma resolve_target_Inr:
  assumes "resolve_target w req = Inr ctx"
  shows "event_header req = Some (ctx_event ctx)" "ctx_event ctx \<noteq> []"
    "body_json req = Inr (ctx_payload ctx)" "ctx_payload ctx \<noteq> JNull"
    "GITHUB_TOKEN (env w) = Some (ctx_token ctx)"
    "AUTOMATION_REPO_OWNER (env w) = Some (ctx_owner ctx)"
    "AUTOMATION_REPO_NAME (env w) = Some (ctx_name ctx)"
    "fetch_default_branch w = Inr (ctx_branch ctx)"
    "ctx_inputs ctx = base_inputs (ctx_event ctx) (clock_inputs w) (ctx_payload ctx)"
    "wf_truthy (ctx_workflow ctx)"
  using assms
  by (auto simp: resolve_target_def resolve_mapping_def
      split: option.splits sum.splits if_splits)

lemma normalize_push_branch:
  "normalize_push ctx = Inr (inputs, src) \<Longrightarrow> map_of inputs ''branch'' = Some src \<and> truthy src"
  by (auto simp: normalize_push_def Let_def map_of_obj_set
      split: option.splits json.splits if_splits)

lemma normalize_pull_request_branch:
  "normalize_pull_request w ctx = Inr (inputs, src) \<Longrightarrow>
     map_of inputs ''branch'' = Some src \<and> truthy src"
  by (auto simp: normalize_pull_request_def Let_def map_of_obj_set
      split: option.splits json.splits if_splits)

lemma normalize_branch:
  "normalize w ctx = Inr (inputs, src) \<Longrightarrow> map_of inputs ''branch'' = Some src \<and> truthy src"
  by (auto simp: normalize_def dest: normalize_push_branch normalize_pull_request_branch
      split: if_splits)

lemma limit_inputs_kept:
  "length (object_keys inputs) > 10 \<Longrightarrow> limit_inputs inputs = kept inputs essentialKeys"
  by (simp add: limit_inputs_def trim_loop_essential)

lemma handler_resolved:
  "resolve_target w req = Inr ctx \<Longrightarrow> normalize w ctx = Inr (inputs, src) \<Longrightarrow>
   handler w req =
     (dispatch_workflow w ctx (limit_inputs inputs) src,
      [fetch_call (ctx_owner ctx) (ctx_name ctx) (ctx_token ctx),
       dispatch_call ctx (limit_inputs inputs)])"
  by (auto simp: handler_def process_event_def finish_def Let_def dest: normalize_branch)

lemma handler_early:
  "resolve_target w req = Inr ctx \<Longrightarrow> normalize w ctx = Inl early \<Longrightarrow>
   handler w req = (early, [fetch_call (ctx_owner ctx) (ctx_name ctx) (ctx_token ctx)])"
  by (simp add: handler_def process_event_def)

subsection \<open>The sample requests, evaluated\<close>

lemmas sample_defs =
  w_ok_def env_ok_def metadata_response_def accepted_response_def ok_def
  event_request_def repository_payload_def push_request_def pull_request_request_def
  pull_request_payload_def pull_request_target_def pull_request_inputs_def
  site_fetch_def deploy_url_def site_target_def push_payload_def push_inputs_def
  w_without_mappings_def w_unreachable_def w_development_def null_request_def
  w_without_token_def w_site_unmapped_def w_workflow_not_found_def not_found_response_def
  named_push_payload_def named_push_request_def toString_url_def

lemmas stage_defs =
  resolve_target_def resolve_mapping_def fetch_default_branch_def resolve_workflow_def
  parse_mappings_def add_mapping_def trim_def is_space_def repository_full_name_def
  lookup_workflow_def object_keys_def array_index_def is_digit_def base_inputs_def

lemma pull_request_resolved:
  "resolve_target w_ok (pull_request_request action) = Inr (pull_request_target action)"
  by (simp add: sample_defs stage_defs)

lemma push_resolved:
  "resolve_target w_ok (push_request ref) = Inr (site_target ''push'' (push_payload ref))"
  by (simp add: sample_defs stage_defs)

lemma event_resolved:
  "event \<noteq> [] \<Longrightarrow>
   resolve_target w_ok (event_request (Some event) ''acme/site'')
     = Inr (site_target event (repository_payload ''acme/site''))"
  by (simp add: sample_defs stage_defs)

lemma site_fetch_call:
  "fetch_call (ctx_owner (site_target event payload)) (ctx_name (site_target event payload))
     (ctx_token (site_target event payload)) = site_fetch"
  by (simp add: fetch_call_def repo_url_def site_target_def site_fetch_def)

lemma site_dispatch_call:
  "dispatch_call (site_target event payload) inputs
     = Dispatch deploy_url ''t0ken'' (JStr ''main'') inputs"
  by (simp add: dispatch_call_def workflow_url_def repo_url_def site_target_def deploy_url_def)

lemma pull_request_normalized:
  "normalize w_ok (pull_request_target ''opened'') = Inr (pull_request_inputs, JStr ''feature'')"
  by (simp add: sample_defs stage_defs normalize_def normalize_pull_request_def
      buildTriggeringActions_def pr_number_text_def call_toString_def
      show_int_def show_nat.simps digit_char_def Let_def)

subsection \<open>Every dispatch carries a branch\<close>

lemma dispatched_fetch_call [simp]:
  "dispatched_inputs (fetch_call owner name token # calls) = dispatched_inputs calls"
  by (simp add: fetch_call_def)

lemma dispatched_dispatch_call [simp]:
  "dispatched_inputs (dispatch_call ctx inputs # calls) = inputs # dispatched_inputs calls"
  by (simp add: dispatch_call_def)

lemma dispatched_site_fetch [simp]:
  "dispatched_inputs (site_fetch # calls) = dispatched_inputs calls"
  by (simp add: site_fetch_def)

lemma resolve_target_Inl_calls:
  "resolve_target w req = Inl (early, calls) \<Longrightarrow> dispatched_inputs calls = []"
  by (auto simp: resolve_target_def missing_header_def missing_token_def missing_repository_def
      split: option.splits sum.splits if_splits)

lemma limit_inputs_branch:
  "map_of (limit_inputs inputs) ''branch'' = map_of inputs ''branch''"
proof -
  have "''branch'' \<in> set essentialKeys" by (simp add: essentialKeys_def)
  then show ?thesis by (simp add: limit_inputs_def trim_loop_essential map_of_kept)
qed

lemma process_event_dispatched:
  "list_all (\<lambda>ins. \<not> falsy (map_of ins ''branch'')) (dispatched_inputs (snd (process_event w ctx)))"
  by (auto simp: process_event_def finish_def Let_def limit_inputs_branch
      split: sum.splits dest: normalize_branch)

lemma handler_dispatched:
  "list_all (\<lambda>ins. \<not> falsy (map_of ins ''branch'')) (dispatched_inputs (snd (handler w req)))"
proof (cases "resolve_target w req")
  case (Inl early)
  then show ?thesis
    using resolve_target_Inl_calls [of w req "fst early" "snd early"]
    by (simp add: handler_def)
next
  case (Inr ctx)
  obtain res calls where pe: "process_event w ctx = (res, calls)"
    by (cases "process_event w ctx")
  with Inr show ?thesis
    using process_event_dispatched [of w ctx] by (simp add: handler_def)
qed

lemma push_normalized:
  "normalize w_ok (site_target ''push'' (push_payload ''refs/heads/main''))
     = Inr (push_inputs ''main'', JStr ''main'')"
  by (simp add: sample_defs stage_defs normalize_def normalize_push_def starts_with_def Let_def)

lemma push_main_handled:
  "handler w_ok (push_request ''refs/heads/main'') =
     (dispatch_workflow w_ok (site_target ''push'' (push_payload ''refs/heads/main''))
        (push_inputs ''main'') (JStr ''main''),
      [site_fetch, Dispatch deploy_url ''t0ken'' (JStr ''main'') (push_inputs ''main'')])"
proof -
  have "limit_inputs (push_inputs ''main'') = push_inputs ''main''"
    by (simp add: limit_inputs_def length_object_keys push_inputs_def)
  then show ?thesis
    using handler_resolved [OF push_resolved push_normalized]
    by (simp add: site_fetch_call site_dispatch_call)
qed

subsection \<open>The workflow mapping\<close>

lemma parse_mappings_empty: "parse_mappings [] = []"
  by (simp add: parse_mappings_def add_mapping_def)

lemma sample_mappings:
  "parse_mappings ''acme/app:ci.yml,acme/site:deploy.yml''
     = [(''acme/app'', ''ci.yml''), (''acme/site'', ''deploy.yml'')]"
  by (simp add: parse_mappings_def add_mapping_def trim_def is_space_def)

lemma object_keys_sample:
  "object_keys [(''acme/app'', ''ci.yml''), (''acme/site'', ''deploy.yml'')]
     = [''acme/app'', ''acme/site'']"
  by (simp add: object_keys_def array_index_def is_digit_def)

lemma resolve_workflow_absent:
  assumes "parse_mappings mappings \<noteq> []"
    and "to_str full = Some name"
    and "lookup_workflow (parse_mappings mappings) name = None"
    and "truthy full \<or> full = JStr []"
  shows "resolve_workflow mappings full = Inl (not_configured name (parse_mappings mappings))"
  using assms
  by (auto simp: resolve_workflow_def Let_def length_object_keys)

lemma handler_mapping_stage:
  assumes "event_header req = Some event" and "event \<noteq> []"
    and "GITHUB_TOKEN (env w) = Some token" and "token \<noteq> []"
    and "AUTOMATION_REPO_OWNER (env w) = Some owner" and "owner \<noteq> []"
    and "AUTOMATION_REPO_NAME (env w) = Some name" and "name \<noteq> []"
    and "body_json req = Inr payload"
    and "fetch_default_branch w = Inr workflowBranch"
    and "resolve_mapping w event token owner name payload workflowBranch = Inl failure"
  shows "handler w req = (failure, [fetch_call owner name token])"
  using assms by (simp add: handler_def resolve_target_def)

lemma or_else_shape: "truthy (or_else x (JStr [])) \<or> or_else x (JStr []) = JStr []"
  by (cases x) auto

lemma repository_full_name_shape:
  "truthy (repository_full_name payload) \<or> repository_full_name payload = JStr []"
  using or_else_shape by (auto simp: repository_full_name_def split: option.splits)

subsection \<open>The metadata fetch comes first\<close>

lemma fetch_failure_status:
  "fetch_default_branch w = Inl failure \<Longrightarrow> status_code failure = 500"
  by (auto simp: fetch_default_branch_def metadata_failed_def reply_def
      split: fetch_outcome.splits sum.splits option.splits if_splits)

lemma handler_after_parse:
  assumes "event_header req = Some event" and "event \<noteq> []"
    and "GITHUB_TOKEN (env w) = Some token" and "token \<noteq> []"
    and "AUTOMATION_REPO_OWNER (env w) = Some owner" and "owner \<noteq> []"
    and "AUTOMATION_REPO_NAME (env w) = Some name" and "name \<noteq> []"
    and "body_json req = Inr payload"
  shows "\<exists>rest. snd (handler w req) = fetch_call owner name token # rest"
proof (cases "resolve_target w req")
  case (Inl early)
  then show ?thesis
    using assms by (auto simp: handler_def resolve_target_def split: sum.splits)
next
  case (Inr ctx)
  have "ctx_owner ctx = owner" "ctx_name ctx = name" "ctx_token ctx = token"
    using resolve_target_Inr(5-7) [OF Inr] assms by simp_all
  then show ?thesis
    using Inr by (simp add: handler_def split: prod.splits)
qed

lemma handler_fetch_failed:
  assumes "event_header req = Some event" and "event \<noteq> []"
    and "GITHUB_TOKEN (env w) = Some token" and "token \<noteq> []"
    and "AUTOMATION_REPO_OWNER (env w) = Some owner" and "owner \<noteq> []"
    and "AUTOMATION_REPO_NAME (env w) = Some name" and "name \<noteq> []"
    and "body_json req = Inr payload"
    and "fetch_default_branch w = Inl failure"
  shows "handler w req = (failure, [fetch_call owner name token])"
  using assms by (simp add: handler_def resolve_target_def)

subsection \<open>Facts about the samples\<close>

lemma w_ok_config:
  "GITHUB_TOKEN (env w_ok) = Some ''t0ken''"
  "AUTOMATION_REPO_OWNER (env w_ok) = Some ''acme''"
  "AUTOMATION_REPO_NAME (env w_ok) = Some ''automation''"
  "WORKFLOW_MAPPINGS (env w_ok) = Some ''acme/app:ci.yml,acme/site:deploy.yml''"
  "fetch_default_branch w_ok = Inr (JStr ''main'')"
  by (simp_all add: sample_defs fetch_default_branch_def)

lemma w_unreachable_config:
  "GITHUB_TOKEN (env w_unreachable) = Some ''t0ken''"
  "AUTOMATION_REPO_OWNER (env w_unreachable) = Some ''acme''"
  "AUTOMATION_REPO_NAME (env w_unreachable) = Some ''automation''"
  "fetch_default_branch w_unreachable = Inl (metadata_failed ''connection refused'')"
  by (simp_all add: sample_defs fetch_default_branch_def)

lemma w_without_mappings_config:
  "GITHUB_TOKEN (env w_without_mappings) = Some ''t0ken''"
  "AUTOMATION_REPO_OWNER (env w_without_mappings) = Some ''acme''"
  "AUTOMATION_REPO_NAME (env w_without_mappings) = Some ''automation''"
  "WORKFLOW_MAPPINGS (env w_without_mappings) = None"
  "fetch_default_branch w_without_mappings = Inr (JStr ''main'')"
  by (simp_all add: sample_defs fetch_default_branch_def)

lemma event_request_parts:
  "event_header (event_request header full_name) = header"
  "body_json (event_request header full_name) = Inr (repository_payload full_name)"
  "repository_payload full_name \<noteq> JNull"
  "repository_full_name (repository_payload full_name) = (if full_name = [] then JStr [] else JStr full_name)"
  by (simp_all add: event_request_def repository_payload_def repository_full_name_def)

lemma push_request_parts:
  "event_header (push_request ref) = Some ''push''"
  "body_json (push_request ref) = Inr (push_payload ref)"
  "push_payload ref \<noteq> JNull"
  by (simp_all add: push_request_def push_payload_def)

lemma site_fetch_eq: "fetch_call ''acme'' ''automation'' ''t0ken'' = site_fetch"
  by (simp add: fetch_call_def repo_url_def site_fetch_def)

subsection \<open>A resolved target needs the whole configuration\<close>

lemma resolve_workflow_Inr:
  "resolve_workflow mappings full = Inr found \<Longrightarrow> parse_mappings mappings \<noteq> []"
  by (auto simp: resolve_workflow_def Let_def length_object_keys split: if_splits)

lemma resolve_target_Inr_config:
  assumes "resolve_target w req = Inr ctx"
  shows "\<not> unset (GITHUB_TOKEN (env w))" "\<not> unset (AUTOMATION_REPO_OWNER (env w))"
    "\<not> unset (AUTOMATION_REPO_NAME (env w))"
    "\<exists>ms. WORKFLOW_MAPPINGS (env w) = Some ms \<and> ms \<noteq> [] \<and> parse_mappings ms \<noteq> []"
  using assms
  by (auto simp: resolve_target_def resolve_mapping_def dest: resolve_workflow_Inr
      split: option.splits sum.splits if_splits)

lemma handler_unresolved_no_dispatch:
  "resolve_target w req = Inl early \<Longrightarrow> dispatched_inputs (snd (handler w req)) = []"
  using resolve_target_Inl_calls [of w req "fst early" "snd early"]
  by (simp add: handler_def)

subsection \<open>The diagnostic flag only decides the stack member\<close>
























subsection \<open>The branch of a push\<close>

lemma branches_fetch_call [simp]:
  "dispatched_branches (fetch_call owner name token # calls) = dispatched_branches calls"
  by (simp add: fetch_call_def)

lemma branches_dispatch_call [simp]:
  "dispatched_branches (dispatch_call ctx inputs # calls)
     = map_of inputs ''branch'' # dispatched_branches calls"
  by (simp add: dispatch_call_def)

lemma branches_site_fetch [simp]:
  "dispatched_branches (site_fetch # calls) = dispatched_branches calls"
  by (simp add: site_fetch_def)

lemma strip_heads_prefix: "replace_first ''refs/heads/'' [] (''refs/heads/'' @ branch) = branch"
  by (simp add: starts_with_def)

lemma normalize_push_missing_ref:
  "get_prop (ctx_payload ctx) ''deleted'' \<noteq> Some (JBool True) \<Longrightarrow>
   falsy (get_prop (ctx_payload ctx) ''ref'') \<Longrightarrow>
   normalize_push ctx = Inl (reply 400 [(''error'', JStr ''Invalid push event payload: missing ref'')])"
  by (simp add: normalize_push_def)

lemma normalize_push_empty_branch:
  "get_prop (ctx_payload ctx) ''deleted'' \<noteq> Some (JBool True) \<Longrightarrow>
   get_prop (ctx_payload ctx) ''ref'' = Some (JStr ref) \<Longrightarrow> ref \<noteq> [] \<Longrightarrow>
   replace_first ''refs/heads/'' [] ref = [] \<Longrightarrow>
   normalize_push ctx = Inl (reply 400 [(''error'', JStr ''Invalid branch reference format'')])"
  by (simp add: normalize_push_def)

lemma normalize_push_branch_value:
  "get_prop (ctx_payload ctx) ''deleted'' \<noteq> Some (JBool True) \<Longrightarrow>
   get_prop (ctx_payload ctx) ''ref'' = Some (JStr ref) \<Longrightarrow>
   replace_first ''refs/heads/'' [] ref \<noteq> [] \<Longrightarrow>
   \<exists>inputs. normalize_push ctx = Inr (inputs, JStr (replace_first ''refs/heads/'' [] ref))"
  by (cases "ref = []") (simp_all add: normalize_push_def Let_def)

subsection \<open>Requests ended by the normalizer\<close>

lemma handler_early_no_dispatch:
  "resolve_target w req = Inr ctx \<Longrightarrow> normalize w ctx = Inl early \<Longrightarrow>
   dispatched_inputs (snd (handler w req)) = []"
  by (simp add: handler_early)

lemma pull_request_request_parts:
  "event_header (pull_request_request action) = Some ''pull_request''"
  "body_json (pull_request_request action) = Inr (pull_request_payload action)"
  "get_prop (pull_request_payload action) ''action'' = Some (JStr action)"
  "get_prop (pull_request_payload action) ''number'' = Some (JNum ''42'')"
  "\<exists>pr. get_prop (pull_request_payload action) ''pull_request'' = Some pr \<and> truthy pr"
  by (simp_all add: pull_request_request_def pull_request_payload_def)

subsection \<open>More on push events and on the samples\<close>

lemma replace_first_absent: "\<not> occurs p s \<Longrightarrow> replace_first p r s = s"
  by (induction s) auto

lemma normalize_push_not_string:
  "get_prop (ctx_payload ctx) ''deleted'' \<noteq> Some (JBool True) \<Longrightarrow>
   get_prop (ctx_payload ctx) ''ref'' = Some v \<Longrightarrow> truthy v \<Longrightarrow> \<not> is_string v \<Longrightarrow>
   normalize_push ctx = Inl (reply 400 [(''error'', JStr ''Failed to process push event data'')])"
  by (cases v) (simp_all add: normalize_push_def)

lemma normalize_push_bare_prefix:
  "get_prop (ctx_payload ctx) ''deleted'' \<noteq> Some (JBool True) \<Longrightarrow>
   get_prop (ctx_payload ctx) ''ref'' = Some (JStr ''refs/heads/'') \<Longrightarrow>
   normalize_push ctx = Inl (reply 400 [(''error'', JStr ''Invalid branch reference format'')])"
proof -
  assume del: "get_prop (ctx_payload ctx) ''deleted'' \<noteq> Some (JBool True)"
    and ref: "get_prop (ctx_payload ctx) ''ref'' = Some (JStr ''refs/heads/'')"
  have "''refs/heads/'' \<noteq> []" by simp
  moreover have "replace_first ''refs/heads/'' [] ''refs/heads/'' = []"
    by (simp add: starts_with_def)
  ultimately show ?thesis using del ref by (intro normalize_push_empty_branch)
qed

lemma push_tag_ref_normalized:
  "normalize w_ok (site_target ''push'' (push_payload ''refs/tags/v1.0''))
     = Inr (push_inputs ''refs/tags/v1.0'', JStr ''refs/tags/v1.0'')"
  by (simp add: sample_defs stage_defs normalize_def normalize_push_def starts_with_def Let_def)

lemma w_site_unmapped_config:
  "GITHUB_TOKEN (env w_site_unmapped) = Some ''t0ken''"
  "AUTOMATION_REPO_OWNER (env w_site_unmapped) = Some ''acme''"
  "AUTOMATION_REPO_NAME (env w_site_unmapped) = Some ''automation''"
  "WORKFLOW_MAPPINGS (env w_site_unmapped) = Some ''acme/app:ci.yml''"
  "fetch_default_branch w_site_unmapped = Inr (JStr ''main'')"
  by (simp_all add: sample_defs fetch_default_branch_def)

lemma w_workflow_not_found_config:
  "GITHUB_TOKEN (env w_workflow_not_found) = Some ''t0ken''"
  "AUTOMATION_REPO_OWNER (env w_workflow_not_found) = Some ''acme''"
  "AUTOMATION_REPO_NAME (env w_workflow_not_found) = Some ''automation''"
  "WORKFLOW_MAPPINGS (env w_workflow_not_found) = Some ''acme/app:ci.yml,acme/site:deploy.yml''"
  "fetch_default_branch w_workflow_not_found = Inr (JStr ''main'')"
  "clock_inputs w_workflow_not_found = ''2024-01-01T00:00:00.000Z''"
  "dispatch_fetch w_workflow_not_found = Responded not_found_response"
  by (simp_all add: sample_defs fetch_default_branch_def)

subsection \<open>The lookup and the order of the stages\<close>

text \<open>
  What holds of the lookup for a full name that is neither a key of the mapping nor a
  member the mapping object inherits, and of the stages that come before the branch on the
  event kind. A fetch that is rejected or answered with a status outside 200-299 ends the
  request with status 500.
\<close>

lemma absent_name_not_configured:
  assumes "event_header req = Some event" and "event \<noteq> []"
    and "GITHUB_TOKEN (env w) = Some token" and "token \<noteq> []"
    and "AUTOMATION_REPO_OWNER (env w) = Some owner" and "owner \<noteq> []"
    and "AUTOMATION_REPO_NAME (env w) = Some name" and "name \<noteq> []"
    and "body_json req = Inr payload" and "payload \<noteq> JNull"
    and "fetch_default_branch w = Inr workflowBranch"
    and "WORKFLOW_MAPPINGS (env w) = Some mappings"
    and "parse_mappings mappings \<noteq> []"
    and "repository_full_name payload = JStr full_name"
    and "map_of (parse_mappings mappings) full_name = None"
    and "full_name \<notin> set object_prototype_names"
  shows "handler w req =
           (reply 400
              [(''error'', JStr ''Repository not configured''),
               (''message'', JStr (''No workflow mapping found for repository: '' @ full_name)),
               (''available_repositories'',
                  JArr (map JStr (object_keys (parse_mappings mappings))))],
            [fetch_call owner name token])
     \<and> parse_mappings ''acme/app:ci.yml,acme/site:deploy.yml''
           = [(''acme/app'', ''ci.yml''), (''acme/site'', ''deploy.yml'')]
     \<and> lookup_workflow (parse_mappings ''acme/app:ci.yml,acme/site:deploy.yml'') ''acme/site''
           = Some (Configured ''deploy.yml'')
     \<and> resolve_workflow ''acme/app:ci.yml,acme/site:deploy.yml'' (JStr ''acme/site'')
           = Inr (Configured ''deploy.yml'')
     \<and> object_keys (parse_mappings ''acme/app:ci.yml,acme/site:deploy.yml'')
           = [''acme/app'', ''acme/site'']"
proof -
  have ne: "mappings \<noteq> []"
    using assms(13) parse_mappings_empty by auto
  have look: "lookup_workflow (parse_mappings mappings) full_name = None"
    using assms(15,16) by (simp add: lookup_workflow_def)
  have "resolve_workflow mappings (repository_full_name payload)
          = Inl (not_configured full_name (parse_mappings mappings))"
    using assms(13) look repository_full_name_shape [of payload]
    by (intro resolve_workflow_absent) (simp_all add: assms(14))
  then have "resolve_mapping w event token owner name payload workflowBranch
          = Inl (not_configured full_name (parse_mappings mappings))"
    using assms(10,12) ne by (simp add: resolve_mapping_def)
  then have "handler w req
          = (not_configured full_name (parse_mappings mappings), [fetch_call owner name token])"
    using assms(1-9,11) by (intro handler_mapping_stage)
  moreover have "lookup_workflow (parse_mappings ''acme/app:ci.yml,acme/site:deploy.yml'') ''acme/site''
           = Some (Configured ''deploy.yml'')"
    by (simp add: sample_mappings lookup_workflow_def)
  moreover have "resolve_workflow ''acme/app:ci.yml,acme/site:deploy.yml'' (JStr ''acme/site'')
           = Inr (Configured ''deploy.yml'')"
    by (simp add: resolve_workflow_def sample_mappings lookup_workflow_def object_keys_sample)
  ultimately show ?thesis
    by (simp add: not_configured_def sample_mappings object_keys_sample)
qed

lemma absent_name_not_configured_sample:
  "handler w_ok (event_request (Some ''push'') ''acme/other'') =
     (reply 400
        [(''error'', JStr ''Repository not configured''),
         (''message'', JStr ''No workflow mapping found for repository: acme/other''),
         (''available_repositories'', JArr [JStr ''acme/app'', JStr ''acme/site''])],
      [site_fetch])"
proof -
  have fetch: "fetch_default_branch w_ok = Inr (JStr ''main'')"
    by (simp add: sample_defs fetch_default_branch_def)
  have maps: "WORKFLOW_MAPPINGS (env w_ok) = Some ''acme/app:ci.yml,acme/site:deploy.yml''"
    by (simp add: sample_defs)
  have full: "repository_full_name (repository_payload ''acme/other'') = JStr ''acme/other''"
    by (simp add: repository_full_name_def repository_payload_def)
  have absent: "map_of (parse_mappings ''acme/app:ci.yml,acme/site:deploy.yml'') ''acme/other'' = None"
    by (simp add: sample_mappings)
  have plain: "''acme/other'' \<notin> set object_prototype_names"
    by (simp add: object_prototype_names_def)
  have "handler w_ok (event_request (Some ''push'') ''acme/other'') =
           (reply 400
              [(''error'', JStr ''Repository not configured''),
               (''message'', JStr (''No workflow mapping found for repository: '' @ ''acme/other'')),
               (''available_repositories'',
                  JArr (map JStr (object_keys (parse_mappings ''acme/app:ci.yml,acme/site:deploy.yml''))))],
            [fetch_call ''acme'' ''automation'' ''t0ken''])"
    using absent_name_not_configured
      [of "event_request (Some ''push'') ''acme/other''" "''push''" w_ok "''t0ken''" "''acme''"
          "''automation''" "repository_payload ''acme/other''" "JStr ''main''"
          "''acme/app:ci.yml,acme/site:deploy.yml''" "''acme/other''", OF _ _ _ _ _ _ _ _ _ _ fetch maps _ full absent plain]
    by (simp add: sample_defs sample_mappings)
  then show ?thesis
    by (simp add: sample_mappings object_keys_sample fetch_call_def repo_url_def site_fetch_def)
qed

lemma fetch_rejected:
  "repo_fetch w = Rejected msg \<Longrightarrow> fetch_default_branch w = Inl (metadata_failed msg)"
  by (simp add: fetch_default_branch_def)

lemma fetch_refused:
  "repo_fetch w = Responded r \<Longrightarrow> \<not> ok r \<Longrightarrow> \<exists>failure. fetch_default_branch w = Inl failure"
  by (cases "resp_text r") (simp_all add: fetch_default_branch_def)

lemma handler_fetch_unsuccessful:
  assumes "event_header req = Some event" and "event \<noteq> []"
    and "GITHUB_TOKEN (env w) = Some token" and "token \<noteq> []"
    and "AUTOMATION_REPO_OWNER (env w) = Some owner" and "owner \<noteq> []"
    and "AUTOMATION_REPO_NAME (env w) = Some name" and "name \<noteq> []"
    and "body_json req = Inr payload"
    and "repo_fetch w = Rejected msg \<or> (repo_fetch w = Responded r \<and> \<not> ok r)"
  shows "status_code (fst (handler w req)) = 500
     \<and> snd (handler w req) = [fetch_call owner name token]"
proof -
  obtain failure where f: "fetch_default_branch w = Inl failure"
    using assms(10) fetch_rejected fetch_refused by blast
  then have "handler w req = (failure, [fetch_call owner name token])"
    using assms(1-9) by (intro handler_fetch_failed)
  then show ?thesis using fetch_failure_status [OF f] by simp
qed

lemma stages_before_event_kind:
  assumes "event_header req = Some event" and "event \<noteq> []"
    and "GITHUB_TOKEN (env w) = Some token" and "token \<noteq> []"
    and "AUTOMATION_REPO_OWNER (env w) = Some owner" and "owner \<noteq> []"
    and "AUTOMATION_REPO_NAME (env w) = Some name" and "name \<noteq> []"
    and "body_json req = Inr payload"
  shows "(\<exists>rest. snd (handler w req) = fetch_call owner name token # rest)
     \<and> (\<forall>failure. fetch_default_branch w = Inl failure \<longrightarrow>
            handler w req = (failure, [fetch_call owner name token])
            \<and> status_code failure = 500)
     \<and> (\<forall>workflowBranch mappings full_name.
            fetch_default_branch w = Inr workflowBranch \<and> payload \<noteq> JNull
            \<and> WORKFLOW_MAPPINGS (env w) = Some mappings \<and> parse_mappings mappings \<noteq> []
            \<and> to_str (repository_full_name payload) = Some full_name
            \<and> lookup_workflow (parse_mappings mappings) full_name = None \<longrightarrow>
            handler w req
              = (not_configured full_name (parse_mappings mappings),
                 [fetch_call owner name token])
            \<and> status_code (not_configured full_name (parse_mappings mappings)) = 400)"
proof (intro conjI allI impI)
  show "\<exists>rest. snd (handler w req) = fetch_call owner name token # rest"
    using assms by (rule handler_after_parse)
next
  fix failure assume "fetch_default_branch w = Inl failure"
  then show "handler w req = (failure, [fetch_call owner name token])"
    using assms by (intro handler_fetch_failed)
next
  fix failure assume "fetch_default_branch w = Inl failure"
  then show "status_code failure = 500" by (rule fetch_failure_status)
next
  fix workflowBranch mappings full_name
  assume h: "fetch_default_branch w = Inr workflowBranch \<and> payload \<noteq> JNull
            \<and> WORKFLOW_MAPPINGS (env w) = Some mappings \<and> parse_mappings mappings \<noteq> []
            \<and> to_str (repository_full_name payload) = Some full_name
            \<and> lookup_workflow (parse_mappings mappings) full_name = None"
  then have ne: "mappings \<noteq> []" using parse_mappings_empty by auto
  have "resolve_workflow mappings (repository_full_name payload)
          = Inl (not_configured full_name (parse_mappings mappings))"
    using h repository_full_name_shape [of payload] by (intro resolve_workflow_absent) simp_all
  then have "resolve_mapping w event token owner name payload workflowBranch
          = Inl (not_configured full_name (parse_mappings mappings))"
    using h ne by (simp add: resolve_mapping_def)
  then show "handler w req
          = (not_configured full_name (parse_mappings mappings), [fetch_call owner name token])"
    using assms h by (intro handler_mapping_stage) simp_all
next
  fix mappings :: string and full_name :: string
  show "status_code (not_configured full_name (parse_mappings mappings)) = 400"
    by (simp add: not_configured_def reply_def)
qed

lemma stages_before_event_kind_sample:
  "handler w_unreachable (event_request (Some ''issues'') ''acme/site'')
     = (metadata_failed ''connection refused'', [site_fetch])
   \<and> status_code (metadata_failed ''connection refused'') = 500
   \<and> handler w_ok (event_request (Some ''issues'') ''acme/other'')
     = (not_configured ''acme/other'' [(''acme/app'', ''ci.yml''), (''acme/site'', ''deploy.yml'')],
        [site_fetch])
   \<and> status_code
         (not_configured ''acme/other'' [(''acme/app'', ''ci.yml''), (''acme/site'', ''deploy.yml'')])
       = 400"
proof -
  have kind: "''issues'' \<noteq> []" by simp
  have tok: "''t0ken'' \<noteq> []" and own: "''acme'' \<noteq> []" and nam: "''automation'' \<noteq> []"
    by simp_all
  note down =
    stages_before_event_kind
      [OF event_request_parts(1) kind w_unreachable_config(1) tok w_unreachable_config(2) own
          w_unreachable_config(3) nam event_request_parts(2)]
  note up =
    stages_before_event_kind
      [OF event_request_parts(1) kind w_ok_config(1) tok w_ok_config(2) own
          w_ok_config(3) nam event_request_parts(2)]
  have look: "lookup_workflow (parse_mappings ''acme/app:ci.yml,acme/site:deploy.yml'') ''acme/other''
                = None"
    by (simp add: sample_mappings lookup_workflow_def object_prototype_names_def)
  have full: "to_str (repository_full_name (repository_payload ''acme/other'')) = Some ''acme/other''"
    by (simp add: event_request_parts(4))
  have ne: "parse_mappings ''acme/app:ci.yml,acme/site:deploy.yml'' \<noteq> []"
    by (simp add: sample_mappings)
  have a: "handler w_unreachable (event_request (Some ''issues'') ''acme/site'')
             = (metadata_failed ''connection refused'', [fetch_call ''acme'' ''automation'' ''t0ken''])
           \<and> status_code (metadata_failed ''connection refused'') = 500"
    using down [of "''acme/site''"] w_unreachable_config(4) by blast
  have b: "handler w_ok (event_request (Some ''issues'') ''acme/other'')
     = (not_configured ''acme/other'' (parse_mappings ''acme/app:ci.yml,acme/site:deploy.yml''),
        [fetch_call ''acme'' ''automation'' ''t0ken''])
     \<and> status_code
         (not_configured ''acme/other'' (parse_mappings ''acme/app:ci.yml,acme/site:deploy.yml''))
       = 400"
    using up [of "''acme/other''"] w_ok_config(4,5) event_request_parts(3) ne full look by blast
  from a b show ?thesis by (simp add: sample_mappings site_fetch_eq)
qed

section \<open>The claims\<close>

text \<open>
  C1, as the code has it. For a push event that has passed intake and target resolution
  and is not a branch deletion: a missing (or otherwise falsy) \<^verbatim>\<open>ref\<close> is answered with
  status 400; a \<^verbatim>\<open>ref\<close> that is present but not a string is answered with status 400; the
  \<^verbatim>\<open>ref\<close> \<^verbatim>\<open>refs/heads/\<close>, whose branch name is empty, is answered with status 400; a
  \<^verbatim>\<open>ref\<close> of the form \<^verbatim>\<open>refs/heads/<branch>\<close> with a non-empty branch is dispatched with
  \<^verbatim>\<open>branch\<close> set to \<^verbatim>\<open><branch>\<close>. The form is not required: a non-empty \<^verbatim>\<open>ref\<close> in which
  \<^verbatim>\<open>refs/heads/\<close> does not occur is dispatched with the whole \<^verbatim>\<open>ref\<close> as \<^verbatim>\<open>branch\<close>. Nothing
  is said of a \<^verbatim>\<open>ref\<close> in which \<^verbatim>\<open>refs/heads/\<close> occurs elsewhere than at its start.
\<close>

theorem push_branch_from_ref:
  assumes "event_header req = Some ''push''"
    and "body_json req = Inr payload"
    and "resolve_target w req = Inr ctx"
    and "get_prop payload ''deleted'' \<noteq> Some (JBool True)"
  shows "(falsy (get_prop payload ''ref'') \<longrightarrow>
            handler w req =
              (reply 400 [(''error'', JStr ''Invalid push event payload: missing ref'')],
               [fetch_call (ctx_owner ctx) (ctx_name ctx) (ctx_token ctx)]))
     \<and> (\<forall>v. get_prop payload ''ref'' = Some v \<and> truthy v \<and> \<not> is_string v \<longrightarrow>
            handler w req =
              (reply 400 [(''error'', JStr ''Failed to process push event data'')],
               [fetch_call (ctx_owner ctx) (ctx_name ctx) (ctx_token ctx)]))
     \<and> (get_prop payload ''ref'' = Some (JStr ''refs/heads/'') \<longrightarrow>
            handler w req =
              (reply 400 [(''error'', JStr ''Invalid branch reference format'')],
               [fetch_call (ctx_owner ctx) (ctx_name ctx) (ctx_token ctx)]))
     \<and> (\<forall>branch. get_prop payload ''ref'' = Some (JStr (''refs/heads/'' @ branch))
               \<and> branch \<noteq> [] \<longrightarrow>
            dispatched_branches (snd (handler w req)) = [Some (JStr branch)])
     \<and> (\<forall>ref. get_prop payload ''ref'' = Some (JStr ref) \<and> ref \<noteq> []
               \<and> \<not> occurs ''refs/heads/'' ref \<longrightarrow>
            dispatched_branches (snd (handler w req)) = [Some (JStr ref)])"
proof -
  have ev: "ctx_event ctx = ''push''"
    using resolve_target_Inr(1) [OF assms(3)] assms(1) by simp
  have pl: "ctx_payload ctx = payload"
    using resolve_target_Inr(3) [OF assms(3)] assms(2) by simp
  have del: "get_prop (ctx_payload ctx) ''deleted'' \<noteq> Some (JBool True)"
    using assms(4) pl by simp
  have norm: "normalize w ctx = normalize_push ctx"
    by (simp add: normalize_def ev)
  have a: "falsy (get_prop payload ''ref'') \<longrightarrow>
            handler w req =
              (reply 400 [(''error'', JStr ''Invalid push event payload: missing ref'')],
               [fetch_call (ctx_owner ctx) (ctx_name ctx) (ctx_token ctx)])"
    using normalize_push_missing_ref [OF del] handler_early [OF assms(3)] norm pl by simp
  have b: "\<forall>v. get_prop payload ''ref'' = Some v \<and> truthy v \<and> \<not> is_string v \<longrightarrow>
            handler w req =
              (reply 400 [(''error'', JStr ''Failed to process push event data'')],
               [fetch_call (ctx_owner ctx) (ctx_name ctx) (ctx_token ctx)])"
    using normalize_push_not_string [OF del] handler_early [OF assms(3)] norm pl by simp
  have c: "get_prop payload ''ref'' = Some (JStr ''refs/heads/'') \<longrightarrow>
            handler w req =
              (reply 400 [(''error'', JStr ''Invalid branch reference format'')],
               [fetch_call (ctx_owner ctx) (ctx_name ctx) (ctx_token ctx)])"
    using normalize_push_bare_prefix [OF del] handler_early [OF assms(3)] norm pl by simp
  have sent: "dispatched_branches (snd (handler w req))
                = [Some (JStr (replace_first ''refs/heads/'' [] ref))]"
    if r: "get_prop payload ''ref'' = Some (JStr ref)"
      and ne: "replace_first ''refs/heads/'' [] ref \<noteq> []" for ref
  proof -
    obtain inputs where
      n: "normalize_push ctx = Inr (inputs, JStr (replace_first ''refs/heads/'' [] ref))"
      using normalize_push_branch_value [OF del, of ref] r ne unfolding pl by blast
    then have br: "map_of inputs ''branch'' = Some (JStr (replace_first ''refs/heads/'' [] ref))"
      using normalize_push_branch by blast
    have "handler w req =
       (dispatch_workflow w ctx (limit_inputs inputs) (JStr (replace_first ''refs/heads/'' [] ref)),
        [fetch_call (ctx_owner ctx) (ctx_name ctx) (ctx_token ctx),
         dispatch_call ctx (limit_inputs inputs)])"
      using n norm by (intro handler_resolved [OF assms(3)]) simp
    then show ?thesis by (simp add: limit_inputs_branch br)
  qed
  have d: "\<forall>branch. get_prop payload ''ref'' = Some (JStr (''refs/heads/'' @ branch))
               \<and> branch \<noteq> [] \<longrightarrow>
            dispatched_branches (snd (handler w req)) = [Some (JStr branch)]"
    using sent [of "''refs/heads/'' @ branch" for branch] strip_heads_prefix by auto
  have e: "\<forall>ref. get_prop payload ''ref'' = Some (JStr ref) \<and> ref \<noteq> []
               \<and> \<not> occurs ''refs/heads/'' ref \<longrightarrow>
            dispatched_branches (snd (handler w req)) = [Some (JStr ref)]"
    using sent replace_first_absent [of "''refs/heads/''" _ "[]"] by auto
  from a b c d e show ?thesis by blast
qed

theorem push_branch_from_ref_witness:
  "dispatched_branches (snd (handler w_ok (push_request ''refs/heads/main''))) = [Some (JStr ''main'')]
   \<and> dispatched_branches (snd (handler w_ok (push_request ''refs/tags/v1.0'')))
       = [Some (JStr ''refs/tags/v1.0'')]
   \<and> falsy (get_prop (repository_payload ''acme/site'') ''ref'')
   \<and> handler w_ok (event_request (Some ''push'') ''acme/site'')
       = (reply 400 [(''error'', JStr ''Invalid push event payload: missing ref'')], [site_fetch])"
proof -
  have kind: "''push'' \<noteq> []" by simp
  have del: "get_prop (push_payload ref) ''deleted'' \<noteq> Some (JBool True)" for ref
    by (simp add: push_payload_def)
  have ref: "get_prop (push_payload ref) ''ref'' = Some (JStr ref)" for ref
    by (simp add: push_payload_def)
  have main: "''refs/heads/main'' = ''refs/heads/'' @ ''main''" "''main'' \<noteq> []" by simp_all
  have a: "dispatched_branches (snd (handler w_ok (push_request ''refs/heads/main'')))
             = [Some (JStr ''main'')]"
    using push_branch_from_ref [OF push_request_parts(1,2) push_resolved del]
      ref [of "''refs/heads/main''"] main by metis
  have tag: "''refs/tags/v1.0'' \<noteq> []" "\<not> occurs ''refs/heads/'' ''refs/tags/v1.0''"
    by (simp_all add: starts_with_def)
  have t: "dispatched_branches (snd (handler w_ok (push_request ''refs/tags/v1.0'')))
             = [Some (JStr ''refs/tags/v1.0'')]"
    using push_branch_from_ref [OF push_request_parts(1,2) push_resolved del]
      ref [of "''refs/tags/v1.0''"] tag by blast
  have del': "get_prop (repository_payload ''acme/site'') ''deleted'' \<noteq> Some (JBool True)"
    by (simp add: repository_payload_def)
  have none: "falsy (get_prop (repository_payload ''acme/site'') ''ref'')"
    by (simp add: repository_payload_def)
  have b: "handler w_ok (event_request (Some ''push'') ''acme/site'')
       = (reply 400 [(''error'', JStr ''Invalid push event payload: missing ref'')],
          [fetch_call (ctx_owner (site_target ''push'' (repository_payload ''acme/site'')))
             (ctx_name (site_target ''push'' (repository_payload ''acme/site'')))
             (ctx_token (site_target ''push'' (repository_payload ''acme/site'')))])"
    using push_branch_from_ref
      [OF event_request_parts(1,2) event_resolved [OF kind] del'] none by blast
  from a t b none show ?thesis by (simp add: site_fetch_call)
qed

text \<open>
  C1, as stated, fails: the \<^verbatim>\<open>ref\<close> of a tag, \<^verbatim>\<open>refs/tags/v1.0\<close>, is not of the form
  \<^verbatim>\<open>refs/heads/<branch>\<close>, yet the push is not rejected: a workflow is dispatched with
  the whole \<^verbatim>\<open>ref\<close> as its \<^verbatim>\<open>branch\<close>.
\<close>

theorem push_branch_from_ref_counterexample:
  "\<not> starts_with ''refs/heads/'' ''refs/tags/v1.0''
   \<and> status_code (fst (handler w_ok (push_request ''refs/tags/v1.0''))) = 200
   \<and> dispatched_branches (snd (handler w_ok (push_request ''refs/tags/v1.0'')))
       = [Some (JStr ''refs/tags/v1.0'')]"
proof -
  have lim: "limit_inputs (push_inputs ''refs/tags/v1.0'') = push_inputs ''refs/tags/v1.0''"
    by (simp add: limit_inputs_def length_object_keys push_inputs_def)
  have "handler w_ok (push_request ''refs/tags/v1.0'') =
     (dispatch_workflow w_ok (site_target ''push'' (push_payload ''refs/tags/v1.0''))
        (push_inputs ''refs/tags/v1.0'') (JStr ''refs/tags/v1.0''),
      [site_fetch, Dispatch deploy_url ''t0ken'' (JStr ''main'') (push_inputs ''refs/tags/v1.0'')])"
    using handler_resolved [OF push_resolved push_tag_ref_normalized]
    by (simp add: lim site_fetch_call site_dispatch_call)
  moreover have "status_code
     (dispatch_workflow w_ok (site_target ''push'' (push_payload ''refs/tags/v1.0''))
        (push_inputs ''refs/tags/v1.0'') (JStr ''refs/tags/v1.0'')) = 200"
    by (simp add: dispatch_workflow_def w_ok_def accepted_response_def ok_def reply_def)
  ultimately show ?thesis
    by (simp add: starts_with_def push_inputs_def)
qed

text \<open>
  C2. When the inputs assembled for a request have more than ten members, the dispatch
  call carries the trimmed inputs: at most ten members, every key from the priority list
  \<^verbatim>\<open>essentialKeys\<close>, namely the keys of that list that are present, in the order of the
  list, each with the value it had. The selection is a function of the inputs alone.
\<close>

theorem inputs_trimmed_by_priority:
  assumes "resolve_target w req = Inr ctx"
    and "normalize w ctx = Inr (inputs, src)"
    and "length (object_keys inputs) > 10"
  shows "snd (handler w req)
           = [fetch_call (ctx_owner ctx) (ctx_name ctx) (ctx_token ctx),
              dispatch_call ctx (limit_inputs inputs)]
     \<and> length (object_keys (limit_inputs inputs)) \<le> 10
     \<and> set (object_keys (limit_inputs inputs)) \<subseteq> set essentialKeys
     \<and> map fst (limit_inputs inputs)
           = take 10 (filter (\<lambda>k. map_of inputs k \<noteq> None) essentialKeys)
     \<and> (\<forall>k. map_of (limit_inputs inputs) k
             = (if k \<in> set essentialKeys then map_of inputs k else None))"
proof -
  have eq: "limit_inputs inputs = kept inputs essentialKeys"
    using assms(3) by (rule limit_inputs_kept)
  have len: "length (kept inputs essentialKeys) \<le> 10"
    using length_kept [of inputs essentialKeys] by (simp add: essentialKeys_def)
  have keys: "map fst (kept inputs essentialKeys)
                = filter (\<lambda>k. map_of inputs k \<noteq> None) essentialKeys"
    by (rule keys_kept)
  have "length (filter (\<lambda>k. map_of inputs k \<noteq> None) essentialKeys) \<le> 10"
    using len keys by (metis length_map)
  then have take: "take 10 (filter (\<lambda>k. map_of inputs k \<noteq> None) essentialKeys)
                     = filter (\<lambda>k. map_of inputs k \<noteq> None) essentialKeys"
    by simp
  have sub: "set (object_keys (kept inputs essentialKeys)) \<subseteq> set essentialKeys"
  proof -
    have "set (object_keys (kept inputs essentialKeys)) = set (map fst (kept inputs essentialKeys))"
      by (simp add: set_object_keys)
    then show ?thesis by (simp only: keys) auto
  qed
  show ?thesis
    using handler_resolved [OF assms(1,2)] len sub keys take
    by (simp add: eq length_object_keys map_of_kept)
qed

theorem inputs_trimmed_by_priority_witness:
  "length (object_keys pull_request_inputs) = 11
   \<and> snd (handler w_ok (pull_request_request ''opened''))
       = [site_fetch,
          Dispatch deploy_url ''t0ken'' (JStr ''main'') (limit_inputs pull_request_inputs)]
   \<and> map fst (limit_inputs pull_request_inputs)
       = [''event_type'', ''timestamp'', ''repository'', ''sender'', ''branch'', ''author'',
          ''pr_number'', ''pr_title'', ''target_branch'']"
proof -
  have len: "length (object_keys pull_request_inputs) = 11"
    by (simp add: length_object_keys pull_request_inputs_def)
  then have more: "length (object_keys pull_request_inputs) > 10" by simp
  have call: "dispatch_call (pull_request_target ''opened'') (limit_inputs pull_request_inputs)
                = Dispatch deploy_url ''t0ken'' (JStr ''main'') (limit_inputs pull_request_inputs)"
    by (simp add: pull_request_target_def site_dispatch_call)
  have fetch: "fetch_call (ctx_owner (pull_request_target ''opened''))
                 (ctx_name (pull_request_target ''opened''))
                 (ctx_token (pull_request_target ''opened'')) = site_fetch"
    by (simp add: pull_request_target_def site_fetch_call)
  have keys: "take 10 (filter (\<lambda>k. map_of pull_request_inputs k \<noteq> None) essentialKeys)
                = [''event_type'', ''timestamp'', ''repository'', ''sender'', ''branch'',
                   ''author'', ''pr_number'', ''pr_title'', ''target_branch'']"
    by (simp add: essentialKeys_def pull_request_inputs_def)
  note fact = inputs_trimmed_by_priority [OF pull_request_resolved pull_request_normalized more]
  from fact have calls: "snd (handler w_ok (pull_request_request ''opened''))
      = [site_fetch, Dispatch deploy_url ''t0ken'' (JStr ''main'') (limit_inputs pull_request_inputs)]"
    by (simp only: call fetch)
  from fact have "map fst (limit_inputs pull_request_inputs)
      = take 10 (filter (\<lambda>k. map_of pull_request_inputs k \<noteq> None) essentialKeys)"
    by blast
  then have "map fst (limit_inputs pull_request_inputs)
      = [''event_type'', ''timestamp'', ''repository'', ''sender'', ''branch'', ''author'',
         ''pr_number'', ''pr_title'', ''target_branch'']"
    by (simp only: keys)
  with len calls show ?thesis by blast
qed

text \<open>
  C3, as the code has it. A pull request event with \<^verbatim>\<open>action\<close> and \<^verbatim>\<open>pull_request\<close> present
  whose action is none of \<^verbatim>\<open>opened\<close>, \<^verbatim>\<open>reopened\<close>, \<^verbatim>\<open>synchronize\<close> never leads to a
  dispatch. It is answered with status 200 and the message that the action does not
  trigger a build when the request has passed intake and target resolution (header,
  configuration, body, metadata fetch, mapping lookup) and the action prints as a string,
  as every string does.
\<close>

theorem non_build_pull_request_action_skipped:
  assumes "event_header req = Some ''pull_request''"
    and "body_json req = Inr payload"
    and "get_prop payload ''action'' = Some action" and "truthy action"
    and "get_prop payload ''pull_request'' = Some pull_request" and "truthy pull_request"
    and "action \<notin> set buildTriggeringActions"
  shows "(\<forall>ctx name. resolve_target w req = Inr ctx \<and> to_str action = Some name \<longrightarrow>
            handler w req =
              (reply 200
                 ([(''message'', JStr (no_build_message name))]
                  @ (case get_prop payload ''number'' of
                       None \<Rightarrow> [] | Some n \<Rightarrow> [(''pr_number'', n)])
                  @ [(''pr_action'', action)]),
               [fetch_call (ctx_owner ctx) (ctx_name ctx) (ctx_token ctx)]))
     \<and> dispatched_inputs (snd (handler w req)) = []"
proof -
  have skipped: "normalize w ctx =
      (case to_str action of
         None \<Rightarrow> Inl (server_error w to_primitive_message)
       | Some name \<Rightarrow>
           Inl (reply 200
              ([(''message'', JStr (no_build_message name))]
               @ (case get_prop payload ''number'' of None \<Rightarrow> [] | Some n \<Rightarrow> [(''pr_number'', n)])
               @ [(''pr_action'', action)])))"
    if "resolve_target w req = Inr ctx" for ctx
  proof -
    have ev: "ctx_event ctx = ''pull_request''"
      using resolve_target_Inr(1) [OF that] assms(1) by simp
    have pl: "ctx_payload ctx = payload"
      using resolve_target_Inr(3) [OF that] assms(2) by simp
    show ?thesis
      using assms(3-7) by (simp add: normalize_def ev pl normalize_pull_request_def)
  qed
  have "dispatched_inputs (snd (handler w req)) = []"
  proof (cases "resolve_target w req")
    case (Inl early)
    then show ?thesis by (rule handler_unresolved_no_dispatch)
  next
    case (Inr ctx)
    obtain early where "normalize w ctx = Inl early"
      using skipped [OF Inr] by (cases "to_str action") simp_all
    with Inr show ?thesis by (rule handler_early_no_dispatch)
  qed
  moreover have "handler w req =
              (reply 200
                 ([(''message'', JStr (no_build_message name))]
                  @ (case get_prop payload ''number'' of
                       None \<Rightarrow> [] | Some n \<Rightarrow> [(''pr_number'', n)])
                  @ [(''pr_action'', action)]),
               [fetch_call (ctx_owner ctx) (ctx_name ctx) (ctx_token ctx)])"
    if "resolve_target w req = Inr ctx" and "to_str action = Some name" for ctx name
    using skipped [OF that(1)] that(2) by (intro handler_early [OF that(1)]) simp
  ultimately show ?thesis by blast
qed

theorem non_build_pull_request_action_skipped_witness:
  "handler w_ok (pull_request_request ''labeled'') =
     (reply 200
        [(''message'', JStr (no_build_message ''labeled'')),
         (''pr_number'', JNum ''42''),
         (''pr_action'', JStr ''labeled'')],
      [site_fetch])
   \<and> dispatched_inputs (snd (handler w_ok (pull_request_request ''labeled''))) = []"
proof -
  obtain pr where pr: "get_prop (pull_request_payload ''labeled'') ''pull_request'' = Some pr"
    "truthy pr"
    using pull_request_request_parts(5) by blast
  have act: "truthy (JStr ''labeled'')" "JStr ''labeled'' \<notin> set buildTriggeringActions"
    "to_str (JStr ''labeled'') = Some ''labeled''"
    by (simp_all add: buildTriggeringActions_def)
  note skipped = non_build_pull_request_action_skipped
    [OF pull_request_request_parts(1,2,3) act(1) pr act(2), of w_ok]
  have "handler w_ok (pull_request_request ''labeled'') =
     (reply 200
        ([(''message'', JStr (no_build_message ''labeled''))]
         @ (case get_prop (pull_request_payload ''labeled'') ''number'' of
              None \<Rightarrow> [] | Some n \<Rightarrow> [(''pr_number'', n)])
         @ [(''pr_action'', JStr ''labeled'')]),
      [fetch_call (ctx_owner (pull_request_target ''labeled''))
         (ctx_name (pull_request_target ''labeled''))
         (ctx_token (pull_request_target ''labeled''))])"
    using skipped pull_request_resolved act(3) by blast
  moreover have "dispatched_inputs (snd (handler w_ok (pull_request_request ''labeled''))) = []"
    using skipped by blast
  ultimately show ?thesis
    by (simp add: pull_request_request_parts(4) pull_request_target_def site_fetch_call)
qed

text \<open>
  C3, as stated, fails: a \<^verbatim>\<open>labeled\<close> pull request of a repository that the mapping does
  not name is answered with status 400 by the mapping lookup, which comes before the
  branch on the event kind.
\<close>

theorem non_build_pull_request_action_skipped_counterexample:
  "JStr ''labeled'' \<notin> set buildTriggeringActions
   \<and> handler w_site_unmapped (pull_request_request ''labeled'')
       = (not_configured ''acme/site'' [(''acme/app'', ''ci.yml'')], [site_fetch])
   \<and> status_code (not_configured ''acme/site'' [(''acme/app'', ''ci.yml'')]) = 400"
proof -
  have maps: "parse_mappings ''acme/app:ci.yml'' = [(''acme/app'', ''ci.yml'')]"
    by (simp add: parse_mappings_def add_mapping_def trim_def is_space_def)
  have full: "repository_full_name (pull_request_payload ''labeled'') = JStr ''acme/site''"
    by (simp add: repository_full_name_def pull_request_payload_def)
  have ne: "pull_request_payload ''labeled'' \<noteq> JNull"
    by (simp add: pull_request_payload_def)
  have "resolve_workflow ''acme/app:ci.yml'' (JStr ''acme/site'')
          = Inl (not_configured ''acme/site'' [(''acme/app'', ''ci.yml'')])"
    by (simp add: resolve_workflow_def Let_def maps length_object_keys lookup_workflow_def
        object_prototype_names_def)
  then have "resolve_mapping w_site_unmapped ''pull_request'' ''t0ken'' ''acme'' ''automation''
               (pull_request_payload ''labeled'') (JStr ''main'')
          = Inl (not_configured ''acme/site'' [(''acme/app'', ''ci.yml'')])"
    using ne by (simp add: resolve_mapping_def w_site_unmapped_config full)
  then have "handler w_site_unmapped (pull_request_request ''labeled'')
               = (not_configured ''acme/site'' [(''acme/app'', ''ci.yml'')],
                  [fetch_call ''acme'' ''automation'' ''t0ken''])"
    by (intro handler_mapping_stage [where event = "''pull_request''"])
       (simp_all add: w_site_unmapped_config pull_request_request_parts)
  then show ?thesis
    by (simp add: site_fetch_eq buildTriggeringActions_def not_configured_def reply_def)
qed

text \<open>
  C4. A request without the event-kind header (\<^verbatim>\<open>x-github-event\<close> absent or empty) is
  answered with status 400 and a body whose only member is \<^verbatim>\<open>error\<close>, and no outbound
  call is made: neither the metadata fetch nor a dispatch.
\<close>

theorem missing_event_header_rejected:
  assumes "unset (event_header req)"
  shows "handler w req = (reply 400 [(''error'', JStr ''Missing GitHub event header'')], [])"
  using assms
  by (cases "event_header req")
     (simp_all add: handler_def resolve_target_def missing_header_def)

theorem missing_event_header_rejected_witness:
  "unset (event_header (event_request None ''acme/site''))
   \<and> handler w_ok (event_request None ''acme/site'')
       = (reply 400 [(''error'', JStr ''Missing GitHub event header'')], [])"
  using missing_event_header_rejected [of "event_request None ''acme/site''" w_ok]
  by (simp add: event_request_def)

text \<open>
  C5, as the code has it. A request whose event kind is neither \<^verbatim>\<open>push\<close> nor
  \<^verbatim>\<open>pull_request\<close> never leads to a dispatch. It is answered with status 200 and the
  message \<^verbatim>\<open>Ignored event: <kind>\<close>, the metadata fetch being the only outbound call, when
  it has passed intake and target resolution (header, configuration, body, metadata
  fetch, mapping lookup).
\<close>

theorem other_event_kinds_ignored:
  assumes "event_header req = Some event"
    and "event \<noteq> ''push''" and "event \<noteq> ''pull_request''"
  shows "(\<forall>ctx. resolve_target w req = Inr ctx \<longrightarrow>
            handler w req =
              (reply 200 [(''message'', JStr (''Ignored event: '' @ event))],
               [fetch_call (ctx_owner ctx) (ctx_name ctx) (ctx_token ctx)]))
     \<and> dispatched_inputs (snd (handler w req)) = []"
proof -
  have ignored: "normalize w ctx = Inl (reply 200 [(''message'', JStr (''Ignored event: '' @ event))])"
    if "resolve_target w req = Inr ctx" for ctx
  proof -
    have "ctx_event ctx = event"
      using resolve_target_Inr(1) [OF that] assms(1) by simp
    then show ?thesis using assms(2,3) by (simp add: normalize_def)
  qed
  have "dispatched_inputs (snd (handler w req)) = []"
  proof (cases "resolve_target w req")
    case (Inl early)
    then show ?thesis by (rule handler_unresolved_no_dispatch)
  next
    case (Inr ctx)
    then show ?thesis using ignored [OF Inr] by (rule handler_early_no_dispatch)
  qed
  then show ?thesis using ignored handler_early by blast
qed

theorem other_event_kinds_ignored_witness:
  "handler w_ok (event_request (Some ''issues'') ''acme/site'') =
     (reply 200 [(''message'', JStr ''Ignored event: issues'')], [site_fetch])
   \<and> dispatched_inputs (snd (handler w_ok (event_request (Some ''issues'') ''acme/site''))) = []"
proof -
  have kind: "''issues'' \<noteq> []" "''issues'' \<noteq> ''push''" "''issues'' \<noteq> ''pull_request''"
    by simp_all
  note ignored = other_event_kinds_ignored
    [OF event_request_parts(1) kind(2,3), of w_ok "''acme/site''"]
  have "handler w_ok (event_request (Some ''issues'') ''acme/site'') =
     (reply 200 [(''message'', JStr (''Ignored event: '' @ ''issues''))],
      [fetch_call (ctx_owner (site_target ''issues'' (repository_payload ''acme/site'')))
         (ctx_name (site_target ''issues'' (repository_payload ''acme/site'')))
         (ctx_token (site_target ''issues'' (repository_payload ''acme/site'')))])"
    using ignored event_resolved [OF kind(1)] by blast
  moreover have "dispatched_inputs (snd (handler w_ok (event_request (Some ''issues'') ''acme/site''))) = []"
    using ignored by blast
  ultimately show ?thesis by (simp add: site_fetch_call)
qed

text \<open>
  C5, as stated, fails: an \<^verbatim>\<open>issues\<close> event of a repository that the mapping does not name
  is answered with status 400 by the mapping lookup, which comes before the branch on the
  event kind.
\<close>

theorem other_event_kinds_ignored_counterexample:
  "handler w_ok (event_request (Some ''issues'') ''acme/other'')
     = (not_configured ''acme/other'' [(''acme/app'', ''ci.yml''), (''acme/site'', ''deploy.yml'')],
        [site_fetch])
   \<and> status_code
         (not_configured ''acme/other'' [(''acme/app'', ''ci.yml''), (''acme/site'', ''deploy.yml'')])
       = 400"
proof -
  have "resolve_workflow ''acme/app:ci.yml,acme/site:deploy.yml'' (JStr ''acme/other'')
          = Inl (not_configured ''acme/other''
                   [(''acme/app'', ''ci.yml''), (''acme/site'', ''deploy.yml'')])"
    by (simp add: resolve_workflow_def Let_def sample_mappings length_object_keys
        lookup_workflow_def object_prototype_names_def)
  then have "resolve_mapping w_ok ''issues'' ''t0ken'' ''acme'' ''automation''
               (repository_payload ''acme/other'') (JStr ''main'')
          = Inl (not_configured ''acme/other''
                   [(''acme/app'', ''ci.yml''), (''acme/site'', ''deploy.yml'')])"
    by (simp add: resolve_mapping_def w_ok_config event_request_parts)
  then have "handler w_ok (event_request (Some ''issues'') ''acme/other'')
               = (not_configured ''acme/other''
                    [(''acme/app'', ''ci.yml''), (''acme/site'', ''deploy.yml'')],
                  [fetch_call ''acme'' ''automation'' ''t0ken''])"
    by (intro handler_mapping_stage [where event = "''issues''"])
       (simp_all add: w_ok_config event_request_parts)
  then show ?thesis by (simp add: site_fetch_eq not_configured_def reply_def)
qed

text \<open>
  C6. A repository full name that is absent from the parsed mapping is to be answered
  with status 400 and the list of the known keys. The code does not do so for a name that
  the mapping object inherits: \<^verbatim>\<open>toString\<close> is no key of the mapping parsed from
  \<^verbatim>\<open>acme/app:ci.yml,acme/site:deploy.yml\<close>, yet for a push that names it the lookup finds
  the inherited function, and the handler dispatches to a workflow address made from the
  text of that function.
\<close>

theorem inherited_name_is_dispatched:
  "map_of (parse_mappings ''acme/app:ci.yml,acme/site:deploy.yml'') ''toString'' = None
   \<and> handler w_workflow_not_found (named_push_request ''toString'')
       = (reply 500
            [(''error'', JStr ''Failed to trigger workflow''),
             (''status'', JNum ''404''),
             (''details'', JObj [(''message'', JStr ''Not Found'')])],
          [site_fetch,
           Dispatch toString_url ''t0ken'' (JStr ''main'')
             [(''event_type'', JStr ''push''),
              (''timestamp'', JStr ''2024-01-01T00:00:00.000Z''),
              (''repository'', JStr ''toString''),
              (''branch'', JStr ''main''),
              (''author'', JStr ''Unknown''),
              (''commit_sha'', JStr []),
              (''commit_message'', JStr []),
              (''commit_url'', JStr [])]])"
proof -
  have rw: "resolve_workflow ''acme/app:ci.yml,acme/site:deploy.yml'' (JStr ''toString'')
              = Inr (Inherited ''toString'')"
    by (simp add: resolve_workflow_def Let_def sample_mappings object_keys_sample
        lookup_workflow_def object_prototype_names_def)
  have full: "repository_full_name (named_push_payload ''toString'') = JStr ''toString''"
    by (simp add: repository_full_name_def named_push_payload_def)
  have r: "resolve_target w_workflow_not_found (named_push_request ''toString'')
          = Inr \<lparr>ctx_event = ''push'', ctx_payload = named_push_payload ''toString'',
                 ctx_token = ''t0ken'', ctx_owner = ''acme'', ctx_name = ''automation'',
                 ctx_branch = JStr ''main'',
                 ctx_inputs = base_inputs ''push'' ''2024-01-01T00:00:00.000Z''
                                (named_push_payload ''toString''),
                 ctx_workflow = Inherited ''toString''\<rparr>"
    by (simp add: resolve_target_def resolve_mapping_def rw full w_workflow_not_found_config
        named_push_request_def, simp add: named_push_payload_def)
  have n: "normalize w_workflow_not_found
             \<lparr>ctx_event = ''push'', ctx_payload = named_push_payload ''toString'',
                 ctx_token = ''t0ken'', ctx_owner = ''acme'', ctx_name = ''automation'',
                 ctx_branch = JStr ''main'',
                 ctx_inputs = base_inputs ''push'' ''2024-01-01T00:00:00.000Z''
                                (named_push_payload ''toString''),
                 ctx_workflow = Inherited ''toString''\<rparr>
           = Inr ([(''event_type'', JStr ''push''),
              (''timestamp'', JStr ''2024-01-01T00:00:00.000Z''),
              (''repository'', JStr ''toString''),
              (''branch'', JStr ''main''),
              (''author'', JStr ''Unknown''),
              (''commit_sha'', JStr []),
              (''commit_message'', JStr []),
              (''commit_url'', JStr [])], JStr ''main'')"
    by (simp add: normalize_def normalize_push_def named_push_payload_def base_inputs_def
        repository_full_name_def starts_with_def Let_def)
  have lim: "limit_inputs [(''event_type'', JStr ''push''),
              (''timestamp'', JStr ''2024-01-01T00:00:00.000Z''),
              (''repository'', JStr ''toString''),
              (''branch'', JStr ''main''),
              (''author'', JStr ''Unknown''),
              (''commit_sha'', JStr []),
              (''commit_message'', JStr []),
              (''commit_url'', JStr [])]
           = [(''event_type'', JStr ''push''),
              (''timestamp'', JStr ''2024-01-01T00:00:00.000Z''),
              (''repository'', JStr ''toString''),
              (''branch'', JStr ''main''),
              (''author'', JStr ''Unknown''),
              (''commit_sha'', JStr []),
              (''commit_message'', JStr []),
              (''commit_url'', JStr [])]"
    by (simp add: limit_inputs_def length_object_keys)
  have absent: "map_of (parse_mappings ''acme/app:ci.yml,acme/site:deploy.yml'') ''toString'' = None"
    by (simp add: sample_mappings)
  show ?thesis
    using handler_resolved [OF r n]
    by (simp add: lim absent dispatch_workflow_def w_workflow_not_found_config
        not_found_response_def ok_def show_int_def show_nat.simps digit_char_def
        fetch_call_def dispatch_call_def workflow_url_def repo_url_def site_fetch_def
        toString_url_def)
qed

text \<open>
  C7, as the code has it. With the event header present: when the token, the owner or the
  name of the automation repository is missing, the answer is a 500 with an \<^verbatim>\<open>error\<close> member
  and no outbound call has been made. The mapping string is read later: when it is missing
  or yields no valid pair, the answer is a 500 with an \<^verbatim>\<open>error\<close> member once the body is
  parsed and the metadata fetch has succeeded, and that fetch has then been made. In no
  case of missing configuration is a workflow dispatched.
\<close>

theorem configuration_checked:
  assumes "event_header req = Some event" and "event \<noteq> []"
  shows "(unset (GITHUB_TOKEN (env w)) \<or> unset (AUTOMATION_REPO_OWNER (env w))
            \<or> unset (AUTOMATION_REPO_NAME (env w)) \<longrightarrow>
          status_code (fst (handler w req)) = 500
          \<and> map_of (body (fst (handler w req))) ''error'' \<noteq> None
          \<and> snd (handler w req) = [])
     \<and> (\<forall>token owner name payload workflowBranch.
          GITHUB_TOKEN (env w) = Some token \<and> token \<noteq> []
          \<and> AUTOMATION_REPO_OWNER (env w) = Some owner \<and> owner \<noteq> []
          \<and> AUTOMATION_REPO_NAME (env w) = Some name \<and> name \<noteq> []
          \<and> body_json req = Inr payload \<and> payload \<noteq> JNull
          \<and> fetch_default_branch w = Inr workflowBranch
          \<and> (unset (WORKFLOW_MAPPINGS (env w))
               \<or> (\<exists>ms. WORKFLOW_MAPPINGS (env w) = Some ms \<and> parse_mappings ms = [])) \<longrightarrow>
          status_code (fst (handler w req)) = 500
          \<and> map_of (body (fst (handler w req))) ''error'' \<noteq> None
          \<and> snd (handler w req) = [fetch_call owner name token])
     \<and> (unset (GITHUB_TOKEN (env w)) \<or> unset (AUTOMATION_REPO_OWNER (env w))
            \<or> unset (AUTOMATION_REPO_NAME (env w)) \<or> unset (WORKFLOW_MAPPINGS (env w))
            \<or> (\<exists>ms. WORKFLOW_MAPPINGS (env w) = Some ms \<and> parse_mappings ms = []) \<longrightarrow>
          dispatched_inputs (snd (handler w req)) = [])"
proof (intro conjI)
  show "unset (GITHUB_TOKEN (env w)) \<or> unset (AUTOMATION_REPO_OWNER (env w))
            \<or> unset (AUTOMATION_REPO_NAME (env w)) \<longrightarrow>
          status_code (fst (handler w req)) = 500
          \<and> map_of (body (fst (handler w req))) ''error'' \<noteq> None
          \<and> snd (handler w req) = []"
    using assms
    by (cases "GITHUB_TOKEN (env w)"; cases "AUTOMATION_REPO_OWNER (env w)";
        cases "AUTOMATION_REPO_NAME (env w)")
       (auto simp: handler_def resolve_target_def missing_token_def missing_repository_def
          reply_def)
next
  show "\<forall>token owner name payload workflowBranch.
          GITHUB_TOKEN (env w) = Some token \<and> token \<noteq> []
          \<and> AUTOMATION_REPO_OWNER (env w) = Some owner \<and> owner \<noteq> []
          \<and> AUTOMATION_REPO_NAME (env w) = Some name \<and> name \<noteq> []
          \<and> body_json req = Inr payload \<and> payload \<noteq> JNull
          \<and> fetch_default_branch w = Inr workflowBranch
          \<and> (unset (WORKFLOW_MAPPINGS (env w))
               \<or> (\<exists>ms. WORKFLOW_MAPPINGS (env w) = Some ms \<and> parse_mappings ms = [])) \<longrightarrow>
          status_code (fst (handler w req)) = 500
          \<and> map_of (body (fst (handler w req))) ''error'' \<noteq> None
          \<and> snd (handler w req) = [fetch_call owner name token]"
  proof (intro allI impI)
    fix token owner name payload workflowBranch
    assume h: "GITHUB_TOKEN (env w) = Some token \<and> token \<noteq> []
          \<and> AUTOMATION_REPO_OWNER (env w) = Some owner \<and> owner \<noteq> []
          \<and> AUTOMATION_REPO_NAME (env w) = Some name \<and> name \<noteq> []
          \<and> body_json req = Inr payload \<and> payload \<noteq> JNull
          \<and> fetch_default_branch w = Inr workflowBranch
          \<and> (unset (WORKFLOW_MAPPINGS (env w))
               \<or> (\<exists>ms. WORKFLOW_MAPPINGS (env w) = Some ms \<and> parse_mappings ms = []))"
    then have "resolve_mapping w event token owner name payload workflowBranch = Inl missing_mappings
      \<or> resolve_mapping w event token owner name payload workflowBranch
           = Inl (mapping_failed ''No valid mappings found'')"
      by (cases "WORKFLOW_MAPPINGS (env w)")
         (auto simp: resolve_mapping_def resolve_workflow_def Let_def length_object_keys)
    then have "handler w req = (missing_mappings, [fetch_call owner name token])
      \<or> handler w req = (mapping_failed ''No valid mappings found'', [fetch_call owner name token])"
      using handler_mapping_stage [of req event w token owner name payload workflowBranch] assms h
      by auto
    then show "status_code (fst (handler w req)) = 500
          \<and> map_of (body (fst (handler w req))) ''error'' \<noteq> None
          \<and> snd (handler w req) = [fetch_call owner name token]"
      by (auto simp: missing_mappings_def mapping_failed_def reply_def)
  qed
next
  show "unset (GITHUB_TOKEN (env w)) \<or> unset (AUTOMATION_REPO_OWNER (env w))
            \<or> unset (AUTOMATION_REPO_NAME (env w)) \<or> unset (WORKFLOW_MAPPINGS (env w))
            \<or> (\<exists>ms. WORKFLOW_MAPPINGS (env w) = Some ms \<and> parse_mappings ms = []) \<longrightarrow>
          dispatched_inputs (snd (handler w req)) = []"
  proof (cases "resolve_target w req")
    case (Inl early)
    then show ?thesis by (simp add: handler_unresolved_no_dispatch)
  next
    case (Inr ctx)
    then show ?thesis using resolve_target_Inr_config [OF Inr] by auto
  qed
qed

theorem configuration_checked_witness:
  "unset (GITHUB_TOKEN (env w_without_token))
   \<and> status_code (fst (handler w_without_token (push_request ''refs/heads/main''))) = 500
   \<and> snd (handler w_without_token (push_request ''refs/heads/main'')) = []
   \<and> unset (WORKFLOW_MAPPINGS (env w_without_mappings))
   \<and> status_code (fst (handler w_without_mappings (push_request ''refs/heads/main''))) = 500
   \<and> snd (handler w_without_mappings (push_request ''refs/heads/main'')) = [site_fetch]
   \<and> dispatched_inputs (snd (handler w_without_mappings (push_request ''refs/heads/main''))) = []"
proof -
  have kind: "''push'' \<noteq> []" by simp
  have tok: "''t0ken'' \<noteq> []" and own: "''acme'' \<noteq> []" and nam: "''automation'' \<noteq> []"
    by simp_all
  have gone: "unset (WORKFLOW_MAPPINGS (env w_without_mappings))"
    by (simp add: w_without_mappings_config)
  note checked = configuration_checked [OF push_request_parts(1) kind, of w_without_mappings "''refs/heads/main''"]
  have "status_code (fst (handler w_without_mappings (push_request ''refs/heads/main''))) = 500
     \<and> map_of (body (fst (handler w_without_mappings (push_request ''refs/heads/main'')))) ''error'' \<noteq> None
     \<and> snd (handler w_without_mappings (push_request ''refs/heads/main''))
         = [fetch_call ''acme'' ''automation'' ''t0ken'']"
    using checked w_without_mappings_config(1,2,3,5) tok own nam push_request_parts(2,3) gone
    by blast
  moreover have "dispatched_inputs (snd (handler w_without_mappings (push_request ''refs/heads/main''))) = []"
    using checked gone by blast
  moreover have none: "unset (GITHUB_TOKEN (env w_without_token))"
    by (simp add: sample_defs)
  moreover have "status_code (fst (handler w_without_token (push_request ''refs/heads/main''))) = 500
     \<and> snd (handler w_without_token (push_request ''refs/heads/main'')) = []"
    using configuration_checked [OF push_request_parts(1) kind, of w_without_token "''refs/heads/main''"]
      none by blast
  ultimately show ?thesis using gone by (simp add: site_fetch_eq)
qed

text \<open>
  C7, as stated, fails: with the mapping string unset and everything else in place, the
  configuration error is returned only after the metadata fetch has been issued.
\<close>

theorem configuration_checked_counterexample:
  "unset (WORKFLOW_MAPPINGS (env w_without_mappings))
   \<and> handler w_without_mappings (push_request ''refs/heads/main'')
       = (missing_mappings, [site_fetch])
   \<and> status_code missing_mappings = 500"
proof -
  have "resolve_mapping w_without_mappings ''push'' ''t0ken'' ''acme'' ''automation''
          (push_payload ''refs/heads/main'') (JStr ''main'') = Inl missing_mappings"
    by (simp add: resolve_mapping_def w_without_mappings_config push_request_parts)
  then have "handler w_without_mappings (push_request ''refs/heads/main'')
               = (missing_mappings, [fetch_call ''acme'' ''automation'' ''t0ken''])"
    by (intro handler_mapping_stage [where event = "''push''"])
       (simp_all add: w_without_mappings_config push_request_parts)
  then show ?thesis
    by (simp add: site_fetch_eq w_without_mappings_config missing_mappings_def reply_def)
qed

text \<open>
  C8. A dispatch is only issued with a non-empty \<^verbatim>\<open>branch\<close> among the inputs. The check
  after the normalizers answers 400 and dispatches nothing when \<^verbatim>\<open>branch\<close> is missing or
  empty, and every dispatch call the handler makes carries a truthy \<^verbatim>\<open>branch\<close>.
\<close>

theorem dispatch_requires_branch:
  "(falsy (map_of inputs ''branch'') \<longrightarrow>
      finish w ctx inputs src =
        (reply 400
           [(''error'', JStr ''Could not determine branch to build''),
            (''event'', JStr (ctx_event ctx)),
            (''payload_excerpt'', JStr (take 1000 (stringify (ctx_payload ctx))))],
         []))
   \<and> list_all (\<lambda>ins. \<not> falsy (map_of ins ''branch''))
         (dispatched_inputs (snd (handler w req)))"
  by (simp add: handler_dispatched finish_def)

theorem dispatch_requires_branch_witness:
  "falsy (map_of ([] :: object) ''branch'')
   \<and> finish w_ok (site_target ''push'' JNull) [] JNull =
        (reply 400
           [(''error'', JStr ''Could not determine branch to build''),
            (''event'', JStr ''push''),
            (''payload_excerpt'', JStr ''null'')],
         [])
   \<and> dispatched_inputs (snd (handler w_ok (push_request ''refs/heads/main'')))
        = [push_inputs ''main'']
   \<and> list_all (\<lambda>ins. \<not> falsy (map_of ins ''branch'')) [push_inputs ''main'']"
  using dispatch_requires_branch
    [of "[]" w_ok "site_target ''push'' JNull" JNull "push_request ''refs/heads/main''"]
  by (simp add: push_main_handled site_target_def)



text \<open>
  C10. A request whose repository is not in the mapping is to be answered with status
  400 whatever its event kind, never with the success of an ignored event. The code does
  not do so for a name that the mapping object inherits: \<^verbatim>\<open>constructor\<close> is no key of the
  mapping, yet an \<^verbatim>\<open>issues\<close> event that names it passes the lookup and is answered with
  status 200, \<^verbatim>\<open>Ignored event: issues\<close>.
\<close>

theorem inherited_name_is_ignored:
  "map_of (parse_mappings ''acme/app:ci.yml,acme/site:deploy.yml'') ''constructor'' = None
   \<and> handler w_ok (event_request (Some ''issues'') ''constructor'')
       = (reply 200 [(''message'', JStr ''Ignored event: issues'')], [site_fetch])"
proof -
  have rw: "resolve_workflow ''acme/app:ci.yml,acme/site:deploy.yml'' (JStr ''constructor'')
              = Inr (Inherited ''constructor'')"
    by (simp add: resolve_workflow_def Let_def sample_mappings object_keys_sample
        lookup_workflow_def object_prototype_names_def)
  have "resolve_target w_ok (event_request (Some ''issues'') ''constructor'')
          = Inr \<lparr>ctx_event = ''issues'', ctx_payload = repository_payload ''constructor'',
                 ctx_token = ''t0ken'', ctx_owner = ''acme'', ctx_name = ''automation'',
                 ctx_branch = JStr ''main'',
                 ctx_inputs = base_inputs ''issues'' (clock_inputs w_ok)
                                (repository_payload ''constructor''),
                 ctx_workflow = Inherited ''constructor''\<rparr>"
    by (simp add: resolve_target_def resolve_mapping_def rw w_ok_config event_request_parts)
  then have "handler w_ok (event_request (Some ''issues'') ''constructor'')
     = (reply 200 [(''message'', JStr ''Ignored event: issues'')], [site_fetch])"
    by (simp add: handler_def process_event_def normalize_def site_fetch_eq)
  then show ?thesis by (simp add: sample_mappings)
qed

end
